theory Spec2Isabelle
  imports Main "HOL-Library.Char_ord" "HOL-Library.List_Lexorder" "HOL-Library.Multiset"
begin

section \<open>Python values used by the pipeline\<close>

text \<open>
  Exceptions are values. Only the classes that the handlers of the source tell apart
  get a constructor of their own; the rest are \<open>OtherException\<close>, which every
  \<^verbatim>\<open>except Exception\<close> clause catches as well.
\<close>

datatype py_exn =
    TimeoutExpired
  | CalledProcessError
  | FileNotFoundError
  | ValueError
  | AttributeError
  | TypeError
  | PermissionError
  | RequestException
  | OtherException

subsection \<open>String methods\<close>

text \<open>
  A Python \<^verbatim>\<open>str\<close> is a sequence of code points. It is modelled as a
  \<^typ>\<open>string\<close> in which a \<^typ>\<open>char\<close> stands for the code point of that number, so
  that the model has the strings of code points below 256, its length is Python's
  \<^verbatim>\<open>len\<close> and the order on characters is Python's.

  \<^verbatim>\<open>s.strip(c)\<close> with a one-character argument removes every leading and every
  trailing occurrence of that character.
\<close>

definition strip_char :: "char \<Rightarrow> string \<Rightarrow> string" where
  "strip_char c s = rev (dropWhile (\<lambda>x. x = c) (rev (dropWhile (\<lambda>x. x = c) s)))"

text \<open>
  \<^verbatim>\<open>s.split(c)\<close> cuts at every occurrence of the separator; adjacent separators
  give empty fields and the empty string gives one empty field.
\<close>

fun split_char :: "char \<Rightarrow> string \<Rightarrow> string list" where
  "split_char c [] = [[]]"
| "split_char c (x # xs) =
     (if x = c then [] # split_char c xs
      else (case split_char c xs of
              [] \<Rightarrow> [[x]]
            | w # ws \<Rightarrow> (x # w) # ws))"

text \<open>\<^verbatim>\<open>sep.join(xs)\<close>.\<close>

fun join :: "string \<Rightarrow> string list \<Rightarrow> string" where
  "join sep [] = []"
| "join sep [x] = x"
| "join sep (x # y # ys) = x @ sep @ join sep (y # ys)"

text \<open>\<^verbatim>\<open>s.startswith(p)\<close>.\<close>

definition startswith :: "string \<Rightarrow> string \<Rightarrow> bool" where
  "startswith s p = (take (length p) s = p)"

section \<open>URL Resolver\<close>

text \<open>
  \<^verbatim>\<open>parse_github_url\<close> is the same code in \<^verbatim>\<open>github_downloader.py\<close> and in
  \<^verbatim>\<open>github_resource.py\<close>. The standard library call \<^verbatim>\<open>urlparse(url).path\<close> is not
  code of the repository: its outcome is the argument \<open>parsed_path\<close>, either the path
  component or the exception the call raised. Everything after that call is the
  function's own code.
\<close>

definition path_parts :: "string \<Rightarrow> string list" where
  "path_parts p = split_char CHR ''/'' (strip_char CHR ''/'' p)"

definition parse_github_url ::
  "string \<Rightarrow> py_exn + string \<Rightarrow> string \<times> string option \<times> string option" where
  "parse_github_url url parsed_path =
     (case parsed_path of
        Inl e \<Rightarrow> (url, None, None)
      | Inr p \<Rightarrow>
          (let parts = path_parts p in
           if length parts < 2 then (url, None, None)
           else if length parts \<ge> 4 \<and> parts ! 2 = ''tree'' then
             (let owner = parts ! 0;
                  repo = parts ! 1;
                  branch = parts ! 3;
                  subdirectory =
                    (if length parts > 4 then Some (join ''/'' (drop 4 parts)) else None);
                  base_url = ''https://github.com/'' @ owner @ ''/'' @ repo @ ''.git''
              in (base_url, Some branch, subdirectory))
           else (url, None, None)))"

section \<open>Repository Fetcher\<close>

text \<open>
  The fetcher talks to the file system and to \<^verbatim>\<open>git\<close>. Each such call is an
  action; the function returns its result together with the list of actions it
  performed, in order. What the outside answers is given by a world: for every kind of
  call, the outcome as a function of the history up to and including that call, so that
  the same call may be answered differently at different times.

  A \<^verbatim>\<open>Path\<close> is kept symbolic: \<open>Div p s\<close> is \<^verbatim>\<open>p / s\<close>, and \<open>StrOf p\<close> is
  \<^verbatim>\<open>str(p)\<close> as a command-line argument.
\<close>

datatype path = Path string | Div path string

datatype arg = Str string | StrOf path

datatype git_action =
    Mkdir path
  | Run "arg list" "path option" nat
  | WriteText path string
  | PathExists path

record git_world =
  on_mkdir :: "git_action list \<Rightarrow> py_exn option"
  on_run :: "git_action list \<Rightarrow> py_exn + int"
  on_write :: "git_action list \<Rightarrow> py_exn option"
  on_exists :: "git_action list \<Rightarrow> py_exn + bool"

type_synonym 'a git_io = "git_world \<Rightarrow> git_action list \<Rightarrow> (py_exn + 'a) \<times> git_action list"

definition git_return :: "'a \<Rightarrow> 'a git_io" where
  "git_return x w tr = (Inr x, tr)"

definition git_bind :: "'a git_io \<Rightarrow> ('a \<Rightarrow> 'b git_io) \<Rightarrow> 'b git_io" where
  "git_bind m f w tr =
     (case m w tr of
        (Inl e, tr') \<Rightarrow> (Inl e, tr')
      | (Inr x, tr') \<Rightarrow> f x w tr')"

text \<open>\<^verbatim>\<open>p.mkdir(parents=True, exist_ok=True)\<close>.\<close>

definition do_mkdir :: "path \<Rightarrow> unit git_io" where
  "do_mkdir p w tr =
     (let tr' = tr @ [Mkdir p] in
      (case on_mkdir w tr' of None \<Rightarrow> Inr () | Some e \<Rightarrow> Inl e, tr'))"

text \<open>
  \<^verbatim>\<open>subprocess.run(argv, cwd=..., capture_output=True, text=True, timeout=...)\<close>: the
  return code, or the exception raised (\<open>TimeoutExpired\<close>, \<open>FileNotFoundError\<close> when
  there is no \<^verbatim>\<open>git\<close>, ...).
\<close>

definition do_run :: "arg list \<Rightarrow> path option \<Rightarrow> nat \<Rightarrow> int git_io" where
  "do_run argv cwd timeout w tr =
     (let tr' = tr @ [Run argv cwd timeout] in (on_run w tr', tr'))"

text \<open>\<^verbatim>\<open>with open(p, 'w') as f: f.write(s)\<close>.\<close>

definition do_write :: "path \<Rightarrow> string \<Rightarrow> unit git_io" where
  "do_write p s w tr =
     (let tr' = tr @ [WriteText p s] in
      (case on_write w tr' of None \<Rightarrow> Inr () | Some e \<Rightarrow> Inl e, tr'))"

text \<open>\<^verbatim>\<open>p.exists()\<close>.\<close>

definition do_exists :: "path \<Rightarrow> bool git_io" where
  "do_exists p w tr =
     (let tr' = tr @ [PathExists p] in (on_exists w tr', tr'))"

text \<open>\<^verbatim>\<open>p.parent\<close>, for a path built with \<open>/\<close> from a single component.\<close>

fun parent :: "path \<Rightarrow> path" where
  "parent (Div p s) = p"
| "parent (Path s) = Path s"

definition newline :: string where
  "newline = [CHR 0x0A]"

text \<open>
  The body of the \<^verbatim>\<open>try\<close> block of \<^verbatim>\<open>clone_subdirectory\<close>: every step that
  fails returns \<open>False\<close> at once; an exception leaves the block.
\<close>

definition clone_subdirectory_try :: "string \<Rightarrow> string \<Rightarrow> string \<Rightarrow> path \<Rightarrow> bool git_io" where
  "clone_subdirectory_try repo_url branch subdirectory target_dir =
     git_bind (do_mkdir target_dir) (\<lambda>_.
     git_bind (do_run [Str ''git'', Str ''init''] (Some target_dir) 30) (\<lambda>rc.
     if rc \<noteq> 0 then git_return False else
     git_bind (do_run [Str ''git'', Str ''remote'', Str ''add'', Str ''origin'', Str repo_url]
                 (Some target_dir) 30) (\<lambda>rc.
     if rc \<noteq> 0 then git_return False else
     git_bind (do_run [Str ''git'', Str ''config'', Str ''core.sparseCheckout'', Str ''true'']
                 (Some target_dir) 30) (\<lambda>rc.
     if rc \<noteq> 0 then git_return False else
     (let sparse_checkout_file = Div (Div (Div target_dir ''.git'') ''info'') ''sparse-checkout'' in
     git_bind (do_mkdir (parent sparse_checkout_file)) (\<lambda>_.
     git_bind (do_write sparse_checkout_file (subdirectory @ ''/'' @ newline)) (\<lambda>_.
     git_bind (do_run [Str ''git'', Str ''fetch'', Str ''origin'', Str branch]
                 (Some target_dir) 300) (\<lambda>rc.
     if rc \<noteq> 0 then git_return False else
     git_bind (do_run [Str ''git'', Str ''checkout'', Str (''origin/'' @ branch)]
                 (Some target_dir) 60) (\<lambda>rc.
     if rc \<noteq> 0 then git_return False else
     (let subdirectory_path = Div target_dir subdirectory in
     git_bind (do_exists subdirectory_path) (\<lambda>ex.
     if \<not> ex then git_return False else git_return True)))))))))))"

text \<open>
  \<^verbatim>\<open>clone_subdirectory\<close>: both handlers (\<^verbatim>\<open>except subprocess.TimeoutExpired\<close>
  and \<^verbatim>\<open>except Exception\<close>) return \<open>False\<close>, so the function never raises.
\<close>

definition clone_subdirectory ::
  "string \<Rightarrow> string \<Rightarrow> string \<Rightarrow> path \<Rightarrow> git_world \<Rightarrow> git_action list \<Rightarrow> bool \<times> git_action list" where
  "clone_subdirectory repo_url branch subdirectory target_dir w tr =
     (case clone_subdirectory_try repo_url branch subdirectory target_dir w tr of
        (Inl e, tr') \<Rightarrow> (False, tr')
      | (Inr b, tr') \<Rightarrow> (b, tr'))"

text \<open>
  \<^verbatim>\<open>clone_repository\<close> of the downloader. \<^verbatim>\<open>if subdirectory:\<close> is Python
  truthiness: an absent and an empty subdirectory both take the full clone. The
  handlers catch \<open>TimeoutExpired\<close>, \<open>CalledProcessError\<close> and \<open>FileNotFoundError\<close>;
  any other exception leaves the function. \<^verbatim>\<open>parse_github_url\<close> returns a
  subdirectory only together with a branch, so the case of a subdirectory without
  a branch cannot occur; there \<^verbatim>\<open>subprocess\<close> would reject the \<^verbatim>\<open>None\<close> argument
  with a \<open>TypeError\<close>.
\<close>

definition clone_repository :: "string \<Rightarrow> py_exn + string \<Rightarrow> path \<Rightarrow> bool git_io" where
  "clone_repository repo_url parsed_path target_dir w tr =
     (case
        (case parse_github_url repo_url parsed_path of
           (base_url, branch, subdirectory) \<Rightarrow>
             (case subdirectory of
                Some (c # cs) \<Rightarrow>
                  (case branch of
                     Some b \<Rightarrow>
                       (case clone_subdirectory base_url b (c # cs) target_dir w tr of
                          (ok, tr') \<Rightarrow> (Inr ok, tr'))
                   | None \<Rightarrow> (Inl TypeError, tr))
              | _ \<Rightarrow>
                  git_bind (do_run [Str ''git'', Str ''clone'', Str base_url, StrOf target_dir]
                              None 300)
                    (\<lambda>rc. if rc = 0 then git_return True else git_return False) w tr))
      of
        (Inl e, tr') \<Rightarrow>
          (if e = TimeoutExpired \<or> e = CalledProcessError \<or> e = FileNotFoundError
           then Inr False else Inl e, tr')
      | (Inr ok, tr') \<Rightarrow> (Inr ok, tr'))"

section \<open>Tree Flattener\<close>

subsection \<open>More string methods\<close>

text \<open>
  \<^verbatim>\<open>s.strip()\<close> removes leading and trailing whitespace. Below 256 the code points
  for which \<^verbatim>\<open>str.isspace\<close> holds are 9 to 13, 28 to 32, 133 (next line) and 160
  (no-break space).
\<close>

definition is_space :: "char \<Rightarrow> bool" where
  "is_space c =
     (let n = (of_char c :: nat) in
      (9 \<le> n \<and> n \<le> 13) \<or> (28 \<le> n \<and> n \<le> 32) \<or> n = 133 \<or> n = 160)"

definition strip :: "string \<Rightarrow> string" where
  "strip s = rev (dropWhile is_space (rev (dropWhile is_space s)))"

text \<open>
  \<^verbatim>\<open>s.lower()\<close>. Below 256 it works character by character: the capital letters
  are the code points 65 to 90 and 192 to 222 without 215 (the multiplication sign),
  and the small letter of each is 32 further on; every other code point stays.
\<close>

definition lower_char :: "char \<Rightarrow> char" where
  "lower_char c =
     (let n = (of_char c :: nat) in
      if (65 \<le> n \<and> n \<le> 90) \<or> (192 \<le> n \<and> n \<le> 222 \<and> n \<noteq> 215)
      then char_of (n + 32) else c)"

definition py_lower :: "string \<Rightarrow> string" where
  "py_lower s = map lower_char s"

subsection \<open>Paths below the flattened directory\<close>

text \<open>
  A path below the root is the list of its components. \<^verbatim>\<open>Path.name\<close> is the last
  component; \<^verbatim>\<open>Path.suffix\<close> is the part of the name from its last dot on, provided
  that dot is neither the first nor the last character of the name
  (\<^verbatim>\<open>i = name.rfind('.'); 0 < i < len(name) - 1\<close>).
\<close>

definition file_name :: "string list \<Rightarrow> string" where
  "file_name parts = (if parts = [] then [] else last parts)"

definition path_suffix :: "string \<Rightarrow> string" where
  "path_suffix name =
     (if CHR ''.'' \<notin> set name then []
      else
        (let after = length (takeWhile (\<lambda>c. c \<noteq> CHR ''.'') (rev name));
             i = length name - 1 - after
         in if 0 < i \<and> 0 < after then drop i name else []))"

subsection \<open>The directory as the flattener sees it\<close>

text \<open>
  An entry of the tree is a directory or a regular file; a regular file carries the
  outcome of \<^verbatim>\<open>stat().st_size\<close> and of reading it as text
  (\<^verbatim>\<open>open(..., errors='ignore').read()\<close>), each of which may raise.

  \<open>entries\<close> lists what \<^verbatim>\<open>rglob("*")\<close> yields, in the order in which the operating
  system returns it, as paths relative to the root. \<open>git_remote\<close> is the outcome of
  \<^verbatim>\<open>git remote get-url origin\<close>: return code and standard output, or an exception.
  The tree is a directory that can be listed: a failure of the enumeration itself,
  which the outer handler of the flattener turns into the result none, has no
  counterpart here.
\<close>

datatype node = Directory | RegularFile "py_exn + nat" "py_exn + string"

record tree =
  root_parts :: "string list"
  root_is_dir :: bool
  entries :: "(string list \<times> node) list"
  git_remote :: "py_exn + int \<times> string"

definition code_extensions :: "string list" where
  "code_extensions =
     [''.py'', ''.sql'', ''.yaml'', ''.yml'', ''.toml'', ''.json'', ''.md'', ''.txt'',
      ''.sh'', ''.js'', ''.ts'', ''.css'', ''.html'', ''.r'', ''.R'', ''.ipynb'']"

definition language_map :: "(string \<times> string) list" where
  "language_map =
     [(''.py'', ''python''), (''.sql'', ''sql''), (''.yaml'', ''yaml''), (''.yml'', ''yaml''),
      (''.toml'', ''toml''), (''.json'', ''json''), (''.sh'', ''bash''),
      (''.js'', ''javascript''), (''.ts'', ''typescript''), (''.css'', ''css''),
      (''.html'', ''html''), (''.r'', ''r''), (''.R'', ''r''), (''.ipynb'', ''json'')]"

definition readme_files :: "string list" where
  "readme_files = [''README.md'', ''readme.md'', ''README.txt'', ''README'']"

text \<open>
  The README loop: the first variant that exists and can be read gives the section
  and ends the loop; a variant that exists but cannot be read (a directory, a
  failing \<^verbatim>\<open>open\<close>) is passed over.
\<close>

fun readme_section :: "(string list \<Rightarrow> node option) \<Rightarrow> string list \<Rightarrow> string list" where
  "readme_section look [] = []"
| "readme_section look (readme_name # rest) =
     (case look [readme_name] of
        Some (RegularFile sz (Inr readme_content)) \<Rightarrow>
          [''## README'', [], readme_content, []]
      | _ \<Rightarrow> readme_section look rest)"

text \<open>
  One turn of the walk loop: the lines appended for an entry, or \<open>None\<close> when the
  entry is skipped. The tests are in the order of the source: regular file with an
  allow-listed lower-cased suffix; no \<^verbatim>\<open>.git\<close> among the parts of the (absolute)
  path and no leading dot in the name; size readable and at most 1 MiB; content
  readable.
\<close>

definition file_section :: "string list \<Rightarrow> string list \<times> node \<Rightarrow> string list option" where
  "file_section root e =
     (case e of
        (rel, Directory) \<Rightarrow> None
      | (rel, RegularFile st_size file_read) \<Rightarrow>
          (let ext = py_lower (path_suffix (file_name rel)) in
           if ext \<notin> set code_extensions then None
           else if ''.git'' \<in> set (root @ rel) \<or> startswith (file_name rel) ''.'' then None
           else
             (case st_size of
                Inl e \<Rightarrow> None
              | Inr size_bytes \<Rightarrow>
                  if size_bytes > 1024 * 1024 then None
                  else
                    (case file_read of
                       Inl e \<Rightarrow> None
                     | Inr file_content \<Rightarrow>
                         (let language =
                                (case map_of language_map ext of
                                   Some l \<Rightarrow> l
                                 | None \<Rightarrow> ''text'')
                          in Some
                               ([''## File: '' @ join ''/'' rel, []]
                                @ (if ext = ''.md'' then [file_content]
                                   else [''```'' @ language, file_content, ''```''])
                                @ [[]]))))))"

text \<open>
  The walk loop over the sorted paths, threading \<^verbatim>\<open>markdown_content\<close> and
  \<^verbatim>\<open>files_processed\<close>.
\<close>

fun walk ::
  "string list \<Rightarrow> (string list \<times> node) list \<Rightarrow> string list \<times> nat \<Rightarrow> string list \<times> nat" where
  "walk root [] acc = acc"
| "walk root (e # es) (markdown_content, files_processed) =
     (case file_section root e of
        None \<Rightarrow> walk root es (markdown_content, files_processed)
      | Some ls \<Rightarrow> walk root es (markdown_content @ ls, files_processed + 1))"

text \<open>
  \<^verbatim>\<open>flatten_repository_to_markdown\<close> of \<^verbatim>\<open>github_resource.py\<close>. \<open>now\<close> is the
  value of \<^verbatim>\<open>time.strftime('%Y-%m-%d %H:%M:%S')\<close>. \<^verbatim>\<open>sorted\<close> orders \<^verbatim>\<open>Path\<close>
  objects by their lists of parts, which is the lexicographic order on
  \<^typ>\<open>string list\<close>.
\<close>

definition flatten_lines :: "tree \<Rightarrow> string \<Rightarrow> string \<Rightarrow> string \<Rightarrow> string list option" where
  "flatten_lines t owner repo now =
     (if \<not> root_is_dir t \<or> \<not> list_ex (\<lambda>e. length (fst e) = 1) (entries t) then None
      else
        (let look = map_of (entries t);
             header =
               [''# '' @ owner @ ''/'' @ repo,
                [],
                ''Repository: https://github.com/'' @ owner @ ''/'' @ repo,
                ''Flattened: '' @ now,
                []];
             git =
               (if look [''.git''] \<noteq> None then
                  (case git_remote t of
                     Inr (returncode, stdout) \<Rightarrow>
                       if returncode = 0 then [''**Git Remote:** '' @ strip stdout, []] else []
                   | Inl e \<Rightarrow> [])
                else []);
             readme = readme_section look readme_files
         in case walk (root_parts t) (sort_key fst (entries t)) (header @ git @ readme, 0) of
              (markdown_content, files_processed) \<Rightarrow>
                if files_processed = 0 then None else Some markdown_content))"

definition flatten_repository_to_markdown ::
  "tree \<Rightarrow> string \<Rightarrow> string \<Rightarrow> string \<Rightarrow> string option" where
  "flatten_repository_to_markdown t owner repo now =
     map_option (join newline) (flatten_lines t owner repo now)"

section \<open>Description Extractor\<close>

text \<open>\<^verbatim>\<open>sub in s\<close> on strings: \<open>sub\<close> occurs in \<open>s\<close> as a contiguous piece.\<close>

fun contains :: "string \<Rightarrow> string \<Rightarrow> bool" where
  "contains [] sub = (sub = [])"
| "contains (c # cs) sub = (startswith (c # cs) sub \<or> contains cs sub)"

text \<open>
  The first loop of \<^verbatim>\<open>extract_description_from_content\<close>, over the lines of the
  content, with the flag \<^verbatim>\<open>in_readme\<close> and the list \<^verbatim>\<open>readme_lines\<close>; the
  \<^verbatim>\<open>break\<close> at the first file section after the README ends it.
\<close>

fun collect_readme_lines ::
  "string \<Rightarrow> string \<Rightarrow> string list \<Rightarrow> bool \<Rightarrow> string list \<Rightarrow> string list" where
  "collect_readme_lines owner repo [] in_readme readme_lines = readme_lines"
| "collect_readme_lines owner repo (line # rest) in_readme readme_lines =
     (if strip line = ''## README'' then
        collect_readme_lines owner repo rest True readme_lines
      else if startswith line ''## File:'' \<and> in_readme then readme_lines
      else if in_readme \<and> strip line \<noteq> [] then
        (if startswith line ''#''
            \<and> (contains (py_lower line) (py_lower repo)
                \<or> contains (py_lower line) (py_lower owner))
         then collect_readme_lines owner repo rest in_readme readme_lines
         else collect_readme_lines owner repo rest in_readme (readme_lines @ [strip line]))
      else collect_readme_lines owner repo rest in_readme readme_lines)"

text \<open>
  The second loop, over the first ten collected lines, with the list
  \<^verbatim>\<open>description_parts\<close>; it stops once the joined parts are longer than 200
  characters.
\<close>

fun collect_description_parts :: "string list \<Rightarrow> string list \<Rightarrow> string list" where
  "collect_description_parts [] description_parts = description_parts"
| "collect_description_parts (line # rest) description_parts =
     (if line \<noteq> [] \<and> \<not> startswith line ''#'' \<and> \<not> startswith line ''**'' then
        (let parts' = description_parts @ [line] in
         if length (join '' '' parts') > 200 then parts'
         else collect_description_parts rest parts')
      else collect_description_parts rest description_parts)"

definition fallback_description :: "string \<Rightarrow> string \<Rightarrow> string" where
  "fallback_description owner repo =
     ''Repository '' @ owner @ ''/'' @ repo @ '' containing code and documentation files.''"

text \<open>
  \<^verbatim>\<open>extract_description_from_content\<close>. No operation of its \<^verbatim>\<open>try\<close> block can
  raise on strings, and its handler returns the fallback sentence as well.
\<close>

definition extract_description_from_content :: "string \<Rightarrow> string \<Rightarrow> string \<Rightarrow> string" where
  "extract_description_from_content content owner repo =
     (let lines = split_char CHR 0x0A content;
          readme_lines = collect_readme_lines owner repo lines False []
      in if readme_lines \<noteq> [] then
           (let description_parts = collect_description_parts (take 10 readme_lines) [] in
            if description_parts \<noteq> [] then take 500 (join '' '' description_parts)
            else fallback_description owner repo)
         else fallback_description owner repo)"

section \<open>Gist Fetcher\<close>

text \<open>
  The body of an API response, and the values of a document: what \<^verbatim>\<open>json\<close>
  decodes to. An object is the list of its members in order.
\<close>

datatype json =
    JNull
  | JBool bool
  | JNum int
  | JStr string
  | JArr "json list"
  | JObj "(string \<times> json) list"

type_synonym document = "(string \<times> json) list"

text \<open>Python truthiness (\<^verbatim>\<open>if v:\<close>, \<^verbatim>\<open>v or d\<close>).\<close>

fun truthy :: "json \<Rightarrow> bool" where
  "truthy JNull = False"
| "truthy (JBool b) = b"
| "truthy (JNum n) = (n \<noteq> 0)"
| "truthy (JStr s) = (s \<noteq> [])"
| "truthy (JArr xs) = (xs \<noteq> [])"
| "truthy (JObj kvs) = (kvs \<noteq> [])"

text \<open>\<^verbatim>\<open>v.get(key, default)\<close>: only a dict has the method.\<close>

fun py_get :: "json \<Rightarrow> string \<Rightarrow> json \<Rightarrow> py_exn + json" where
  "py_get (JObj kvs) key dflt = Inr (case map_of kvs key of Some v \<Rightarrow> v | None \<Rightarrow> dflt)"
| "py_get v key dflt = Inl AttributeError"

text \<open>
  A value inside an f-string. A string stands for itself; the text of any other
  value is given by \<open>str_of\<close>, Python's \<^verbatim>\<open>str\<close> on it, which is not code of the
  repository and never raises on decoded JSON.
\<close>

fun fmt :: "(json \<Rightarrow> string) \<Rightarrow> json \<Rightarrow> string" where
  "fmt str_of (JStr s) = s"
| "fmt str_of v = str_of v"

text \<open>\<^verbatim>\<open>'\n'.join(items)\<close> raises \<open>TypeError\<close> unless every item is a string.\<close>

fun py_join :: "string \<Rightarrow> json list \<Rightarrow> py_exn + string" where
  "py_join sep items =
     (if list_all (\<lambda>v. case v of JStr s \<Rightarrow> True | _ \<Rightarrow> False) items
      then Inr (join sep (map (\<lambda>v. case v of JStr s \<Rightarrow> s | _ \<Rightarrow> []) items))
      else Inl TypeError)"

text \<open>
  A count inside an f-string (\<^verbatim>\<open>files_processed\<close>) is written in decimal.
\<close>

definition digit :: "nat \<Rightarrow> char" where
  "digit d = char_of (of_char CHR ''0'' + d)"

fun str_nat :: "nat \<Rightarrow> string" where
  "str_nat n = (if 10 \<le> n then str_nat (n div 10) @ [digit (n mod 10)] else [digit n])"

definition endswith :: "string \<Rightarrow> string \<Rightarrow> bool" where
  "endswith s p = (length p \<le> length s \<and> drop (length s - length p) s = p)"

definition gist_language_map :: "(string \<times> string) list" where
  "gist_language_map =
     [(''python'', ''python''), (''sql'', ''sql''), (''yaml'', ''yaml''), (''json'', ''json''),
      (''javascript'', ''javascript''), (''typescript'', ''typescript''), (''bash'', ''bash''),
      (''shell'', ''bash''), (''r'', ''r'')]"

text \<open>
  One turn of the loop over \<^verbatim>\<open>gist_data.get("files", {}).items()\<close>: the lines
  appended for a file (none when its content is falsy), or the exception raised.
  \<^verbatim>\<open>file_data.get("language", "").lower()\<close> raises unless the language is a
  string.
\<close>

definition gist_file_lines :: "string \<Rightarrow> json \<Rightarrow> py_exn + json list" where
  "gist_file_lines filename file_data =
     (case py_get file_data ''content'' (JStr []) of
        Inl e \<Rightarrow> Inl e
      | Inr content \<Rightarrow>
          if \<not> truthy content then Inr []
          else
            (case py_get file_data ''language'' (JStr []) of
               Inl e \<Rightarrow> Inl e
             | Inr (JStr l) \<Rightarrow>
                 (let language = (if py_lower l = [] then ''text'' else py_lower l);
                      lang = (case map_of gist_language_map language of
                                Some x \<Rightarrow> x
                              | None \<Rightarrow> ''text'')
                  in Inr
                       ([JStr (''## File: '' @ filename), JStr []]
                        @ (if endswith (py_lower filename) ''.md'' then [content]
                           else [JStr (''```'' @ lang), content, JStr ''```''])
                        @ [JStr []]))
             | Inr other \<Rightarrow> Inl AttributeError))"

fun gist_files_loop ::
  "(string \<times> json) list \<Rightarrow> json list \<times> nat \<Rightarrow> py_exn + json list \<times> nat" where
  "gist_files_loop [] acc = Inr acc"
| "gist_files_loop ((filename, file_data) # rest) (markdown_content, files_processed) =
     (case gist_file_lines filename file_data of
        Inl e \<Rightarrow> Inl e
      | Inr [] \<Rightarrow> gist_files_loop rest (markdown_content, files_processed)
      | Inr ls \<Rightarrow> gist_files_loop rest (markdown_content @ ls, files_processed + 1))"

text \<open>\<^verbatim>\<open>v.items()\<close> and \<^verbatim>\<open>list(v.keys())\<close>: only a dict has the methods.\<close>

fun py_items :: "json \<Rightarrow> py_exn + (string \<times> json) list" where
  "py_items (JObj kvs) = Inr kvs"
| "py_items v = Inl AttributeError"

text \<open>Sequencing of steps that may raise: the first exception ends the block.\<close>

definition exn_bind :: "py_exn + 'a \<Rightarrow> ('a \<Rightarrow> py_exn + 'b) \<Rightarrow> py_exn + 'b" where
  "exn_bind m f = (case m of Inl e \<Rightarrow> Inl e | Inr x \<Rightarrow> f x)"

text \<open>The header lines of the gist document.\<close>

definition gist_header ::
  "(json \<Rightarrow> string) \<Rightarrow> string \<Rightarrow> json \<Rightarrow> json \<Rightarrow> json \<Rightarrow> json \<Rightarrow> json \<Rightarrow> json list" where
  "gist_header str_of gist_id gist_description owner html_url created_at updated_at =
     [JStr (''# Gist: '' @ fmt str_of gist_description),
      JStr [],
      JStr (''**Gist ID:** '' @ gist_id),
      JStr (''**Owner:** '' @ fmt str_of owner),
      JStr (''**URL:** '' @ fmt str_of html_url),
      JStr (''**Created:** '' @ fmt str_of created_at),
      JStr (''**Updated:** '' @ fmt str_of updated_at),
      JStr []]
     @ (if truthy gist_description
        then [JStr (''**Description:** '' @ fmt str_of gist_description), JStr []]
        else [])"

text \<open>The dict \<^verbatim>\<open>gist_doc\<close>.\<close>

definition gist_doc ::
  "string \<Rightarrow> string \<Rightarrow> json \<Rightarrow> json \<Rightarrow> json \<Rightarrow> json \<Rightarrow> json \<Rightarrow> string \<Rightarrow> nat
     \<Rightarrow> (string \<times> json) list \<Rightarrow> document" where
  "gist_doc gist_id gist_name gist_description owner html_url created_at updated_at content
     files_processed file_items =
     [(''_key'', JStr (''gist_'' @ gist_id)),
      (''type'', JStr ''gist''),
      (''content'', JStr content),
      (''document_type'', JStr ''flattened_gist''),
      (''cmfeg8drs00wz0fs60q668chq'',
         if truthy gist_description then gist_description else JStr gist_name),
      (''cmfeg8drs00x00fs6b44bexkp'',
         if truthy gist_description then gist_description
         else JStr (''GitHub Gist '' @ gist_name @ '' containing ''
                    @ str_nat files_processed @ '' file(s)'')),
      (''gist_id'', JStr gist_id),
      (''owner'', owner),
      (''url'', html_url),
      (''created_at'', created_at),
      (''updated_at'', updated_at),
      (''file_count'', JNum (int files_processed)),
      (''files'', JArr (map (\<lambda>kv. JStr (fst kv)) file_items))]"

text \<open>
  The body of the \<^verbatim>\<open>try\<close> block of \<^verbatim>\<open>get_gist_content\<close>. \<open>response\<close> is the
  outcome of the three calls \<^verbatim>\<open>session.get\<close>, \<^verbatim>\<open>raise_for_status\<close> and
  \<^verbatim>\<open>response.json()\<close>: the decoded body, or the exception one of them raised.
\<close>

definition get_gist_content_try ::
  "(json \<Rightarrow> string) \<Rightarrow> string \<Rightarrow> string \<Rightarrow> py_exn + json \<Rightarrow> py_exn + document list" where
  "get_gist_content_try str_of gist_id gist_name response =
     exn_bind response (\<lambda>gist_data.
     exn_bind (py_get gist_data ''description'' (JStr gist_name)) (\<lambda>gist_description.
     exn_bind (py_get gist_data ''owner'' (JObj [])) (\<lambda>owner_data.
     exn_bind (py_get owner_data ''login'' (JStr ''unknown'')) (\<lambda>owner.
     exn_bind (py_get gist_data ''html_url'' (JStr [])) (\<lambda>html_url.
     exn_bind (py_get gist_data ''created_at'' (JStr [])) (\<lambda>created_at.
     exn_bind (py_get gist_data ''updated_at'' (JStr [])) (\<lambda>updated_at.
     exn_bind (py_get gist_data ''files'' (JObj [])) (\<lambda>files.
     exn_bind (py_items files) (\<lambda>file_items.
     exn_bind (gist_files_loop file_items
                 (gist_header str_of gist_id gist_description owner html_url created_at
                    updated_at, 0)) (\<lambda>(markdown_content, files_processed).
     if files_processed > 0 then
       exn_bind (py_join newline markdown_content) (\<lambda>content.
       Inr [gist_doc gist_id gist_name gist_description owner html_url created_at updated_at
              content files_processed file_items])
     else Inr []))))))))))"

text \<open>
  \<^verbatim>\<open>get_gist_content\<close>: the handler \<^verbatim>\<open>except Exception\<close> logs, and the function
  returns \<^verbatim>\<open>documents\<close>, which is still empty when anything was raised.
\<close>

definition get_gist_content ::
  "(json \<Rightarrow> string) \<Rightarrow> string \<Rightarrow> string \<Rightarrow> py_exn + json \<Rightarrow> document list" where
  "get_gist_content str_of gist_id gist_name response =
     (case get_gist_content_try str_of gist_id gist_name response of
        Inl e \<Rightarrow> []
      | Inr documents \<Rightarrow> documents)"

section \<open>Sink Provisioner\<close>

text \<open>
  \<^verbatim>\<open>scout_table\<close> calls four methods of the sink resource. As for the fetcher, the
  calls are actions and the world answers each as a function of the history.
  \<^verbatim>\<open>get_tables\<close> returns a list of dicts.
\<close>

datatype sink_action =
    GetTables string
  | DeleteTable string json
  | CreateTable string string "(string \<times> string) list"
  | GetTableSchema string json

record sink_world =
  on_get_tables :: "sink_action list \<Rightarrow> py_exn + document list"
  on_delete_table :: "sink_action list \<Rightarrow> py_exn option"
  on_create_table :: "sink_action list \<Rightarrow> py_exn + json"
  on_get_table_schema :: "sink_action list \<Rightarrow> py_exn + json"

record table_result =
  table_id :: json
  status :: string

definition table_schema :: "(string \<times> string) list" where
  "table_schema =
     [(''_key'', ''text-short''), (''type'', ''text-short''), (''document_type'', ''text-short''),
      (''title'', ''text-short''), (''description'', ''text-long''), (''owner'', ''text-short''),
      (''repo'', ''text-short''), (''category'', ''text-short''), (''source'', ''text-short''),
      (''url'', ''url''), (''created_at'', ''datetime''), (''updated_at'', ''datetime''),
      (''content'', ''text-long'')]"

text \<open>\<^verbatim>\<open>d.get(key)\<close> on a dict: the value, or \<^verbatim>\<open>None\<close>.\<close>

definition dict_get :: "document \<Rightarrow> string \<Rightarrow> json" where
  "dict_get d key = (case map_of d key of Some v \<Rightarrow> v | None \<Rightarrow> JNull)"

text \<open>
  The lookup loop: the first table whose \<^verbatim>\<open>name\<close> equals the configured name.
\<close>

fun find_table :: "string \<Rightarrow> document list \<Rightarrow> document option" where
  "find_table name [] = None"
| "find_table name (t # ts) =
     (if dict_get t ''name'' = JStr name then Some t else find_table name ts)"

text \<open>
  Logging the created schema: \<^verbatim>\<open>len(actual_schema)\<close> and, for every element,
  \<^verbatim>\<open>col.get(...)\<close>. The exception raised, if any.
\<close>

fun log_schema :: "json \<Rightarrow> py_exn option" where
  "log_schema (JArr cols) =
     (if list_all (\<lambda>c. case c of JObj kvs \<Rightarrow> True | _ \<Rightarrow> False) cols then None
      else Some AttributeError)"
| "log_schema (JStr s) = (if s = [] then None else Some AttributeError)"
| "log_schema (JObj kvs) = (if kvs = [] then None else Some AttributeError)"
| "log_schema v = Some TypeError"

text \<open>
  \<^verbatim>\<open>result.get("data", {}).get("table_id")\<close> on the response of
  \<^verbatim>\<open>create_table\<close>.
\<close>

definition created_table_id :: "json \<Rightarrow> py_exn + json" where
  "created_table_id result =
     exn_bind (py_get result ''data'' (JObj [])) (\<lambda>d. py_get d ''table_id'' JNull)"

text \<open>
  \<^verbatim>\<open>scout_table\<close>. \<open>collection_id\<close> is the value of the environment variable
  \<^verbatim>\<open>SCOUTOS_COLLECTION_ID\<close>. The handler of the \<^verbatim>\<open>try\<close> block logs and raises
  again, so every exception leaves the function.
\<close>

definition scout_table ::
  "string \<Rightarrow> bool \<Rightarrow> string option \<Rightarrow> sink_world \<Rightarrow> sink_action list
     \<Rightarrow> (py_exn + table_result) \<times> sink_action list" where
  "scout_table table_name force_recreate_table collection_id w tr =
     (case collection_id of
        None \<Rightarrow> (Inl ValueError, tr)
      | Some cid \<Rightarrow>
          if cid = [] then (Inl ValueError, tr)
          else
            (let tr1 = tr @ [GetTables cid] in
             case on_get_tables w tr1 of
               Inl e \<Rightarrow> (Inl e, tr1)
             | Inr tables \<Rightarrow>
                 (let existing_table = find_table table_name tables;
                      found = (case existing_table of None \<Rightarrow> False | Some t \<Rightarrow> t \<noteq> [])
                  in
                  if found \<and> \<not> force_recreate_table then
                    (case existing_table of
                       Some t \<Rightarrow>
                         (Inr \<lparr>table_id = dict_get t ''id'', status = ''existing''\<rparr>, tr1)
                     | None \<Rightarrow> (Inl AttributeError, tr1))
                  else if found \<and> force_recreate_table then
                    (case existing_table of
                       None \<Rightarrow> (Inl AttributeError, tr1)
                     | Some t \<Rightarrow>
                         (let old_table_id = dict_get t ''id'';
                              tr2 = tr1 @ [DeleteTable cid old_table_id]
                          in case on_delete_table w tr2 of
                               Some e \<Rightarrow> (Inl e, tr2)
                             | None \<Rightarrow>
                                 (let tr3 = tr2 @ [CreateTable cid table_name table_schema] in
                                  case exn_bind (on_create_table w tr3) created_table_id of
                                    Inl e \<Rightarrow> (Inl e, tr3)
                                  | Inr new_id \<Rightarrow>
                                      (let tr4 = tr3 @ [GetTableSchema cid new_id] in
                                       case exn_bind (on_get_table_schema w tr4) (\<lambda>s.
                                            exn_bind (py_get s ''data'' (JObj [])) (\<lambda>d.
                                            exn_bind (py_get d ''table_config'' (JObj [])) (\<lambda>c.
                                            py_get c ''schema'' (JArr [])))) of
                                         Inl e \<Rightarrow> (Inl e, tr4)
                                       | Inr actual_schema \<Rightarrow>
                                           (case log_schema actual_schema of
                                              Some e \<Rightarrow> (Inl e, tr4)
                                            | None \<Rightarrow>
                                                (Inr \<lparr>table_id = new_id, status = ''recreated''\<rparr>,
                                                 tr4))))))
                  else
                    (let tr2 = tr1 @ [CreateTable cid table_name table_schema] in
                     case exn_bind (on_create_table w tr2) created_table_id of
                       Inl e \<Rightarrow> (Inl e, tr2)
                     | Inr new_id \<Rightarrow>
                         (Inr \<lparr>table_id = new_id, status = ''created''\<rparr>, tr2)))))"

section \<open>Ingestion Orchestrator\<close>

text \<open>
  \<^verbatim>\<open>GitHubRepoConfig\<close> and \<^verbatim>\<open>GitHubGistConfig\<close>; the fields carry a prefix,
  since a field of a record is a constant of the theory.
\<close>

record repo_config =
  repo_owner :: string
  repo_name :: string
  repo_category :: string
  repo_description :: string

record gist_config =
  gist_config_id :: string
  gist_config_name :: string
  gist_config_description :: string

text \<open>
  \<^verbatim>\<open>github_table_fill\<close> calls \<^verbatim>\<open>github.get_repository_content\<close>,
  \<^verbatim>\<open>github.get_gist_content\<close> and \<^verbatim>\<open>scoutos.write_documents\<close>. The calls are
  actions; the world gives the outcome of each, a list of documents or an
  exception, as a function of the history.
\<close>

datatype fill_action =
    GetRepositoryContent string string
  | GetGistContent string string
  | WriteDocuments "string option" string "document list"

record fill_world =
  on_repository_content :: "fill_action list \<Rightarrow> py_exn + document list"
  on_gist_content :: "fill_action list \<Rightarrow> py_exn + document list"
  on_write_documents :: "fill_action list \<Rightarrow> py_exn option"

text \<open>
  A value of the metadata of the result; \<open>MError e\<close> is \<^verbatim>\<open>str(e)\<close>.
\<close>

datatype meta = MInt int | MText string | MError py_exn

text \<open>\<^verbatim>\<open>d[key] = v\<close> on a dict: in place for a present key, at the end otherwise.\<close>

fun dict_set :: "string \<Rightarrow> json \<Rightarrow> document \<Rightarrow> document" where
  "dict_set key v [] = [(key, v)]"
| "dict_set key v ((k, x) # kvs) =
     (if k = key then (k, v) # kvs else (k, x) # dict_set key v kvs)"

definition tag_document :: "string \<Rightarrow> document \<Rightarrow> document" where
  "tag_document category doc =
     dict_set ''source'' (JStr ''github_component'') (dict_set ''category'' (JStr category) doc)"

text \<open>
  The loop over the repositories, threading \<^verbatim>\<open>all_documents\<close>,
  \<^verbatim>\<open>repos_processed\<close> and the history. The \<^verbatim>\<open>try\<close> is inside the loop body: an
  exception is logged and the loop goes on with the next repository.
\<close>

fun repositories_loop ::
  "fill_world \<Rightarrow> repo_config list \<Rightarrow> (document list \<times> nat) \<times> fill_action list
     \<Rightarrow> (document list \<times> nat) \<times> fill_action list" where
  "repositories_loop w [] st = st"
| "repositories_loop w (repo_config # rest) ((all_documents, repos_processed), tr) =
     (let tr' = tr @ [GetRepositoryContent (repo_owner repo_config) (repo_name repo_config)] in
      case on_repository_content w tr' of
        Inl e \<Rightarrow> repositories_loop w rest ((all_documents, repos_processed), tr')
      | Inr documents \<Rightarrow>
          if documents \<noteq> [] then
            repositories_loop w rest
              ((all_documents @ map (tag_document (repo_category repo_config)) documents,
                repos_processed + 1), tr')
          else repositories_loop w rest ((all_documents, repos_processed), tr'))"

text \<open>The loop over the gists; a placeholder id is skipped before any call.\<close>

fun gists_loop ::
  "fill_world \<Rightarrow> gist_config list \<Rightarrow> (document list \<times> nat) \<times> fill_action list
     \<Rightarrow> (document list \<times> nat) \<times> fill_action list" where
  "gists_loop w [] st = st"
| "gists_loop w (gist_config # rest) ((all_documents, gists_processed), tr) =
     (if gist_config_id gist_config \<in> set [''your_gist_id_here'', ''gist_id_placeholder'']
      then gists_loop w rest ((all_documents, gists_processed), tr)
      else
        (let tr' = tr @ [GetGistContent (gist_config_id gist_config) (gist_config_name gist_config)] in
         case on_gist_content w tr' of
           Inl e \<Rightarrow> gists_loop w rest ((all_documents, gists_processed), tr')
         | Inr documents \<Rightarrow>
             if documents \<noteq> [] then
               gists_loop w rest
                 ((all_documents @ map (tag_document ''gist'') documents, gists_processed + 1),
                  tr')
             else gists_loop w rest ((all_documents, gists_processed), tr')))"

text \<open>
  Logging the sample document slices its description with \<^verbatim>\<open>[:100]\<close>, which
  raises unless the value is a string or a list; a missing key gives the string
  \<^verbatim>\<open>'NOT_FOUND'\<close>.
\<close>

definition sample_log :: "document \<Rightarrow> py_exn option" where
  "sample_log sample_doc =
     (case map_of sample_doc ''cmfeg8drs00x00fs6b44bexkp'' of
        None \<Rightarrow> None
      | Some (JStr s) \<Rightarrow> None
      | Some (JArr xs) \<Rightarrow> None
      | Some v \<Rightarrow> Some TypeError)"

text \<open>
  \<^verbatim>\<open>github_table_fill\<close>. \<open>table_event\<close> is what the instance knows of the table
  asset: no materialization, a materialization without \<^verbatim>\<open>table_id\<close>, or the
  value of \<^verbatim>\<open>table_id\<close>. \<open>collection_id\<close> is the environment variable
  \<^verbatim>\<open>SCOUTOS_COLLECTION_ID\<close>.
\<close>

definition github_table_fill ::
  "repo_config list \<Rightarrow> gist_config list \<Rightarrow> string option option \<Rightarrow> string option
     \<Rightarrow> fill_world \<Rightarrow> (string \<times> meta) list \<times> fill_action list" where
  "github_table_fill repositories gists table_event collection_id w =
     (case table_event of
        None \<Rightarrow> ([(''error'', MText ''missing_table_materialization'')], [])
      | Some None \<Rightarrow> ([(''error'', MText ''table_id_missing_from_metadata'')], [])
      | Some (Some tid) \<Rightarrow>
          if tid = [] then
            ([(''documents_processed'', MInt 0),
              (''scout_write'', MText ''skipped - missing env vars'')], [])
          else
            (case repositories_loop w repositories (([], 0), []) of
               ((docs1, repos_processed), tr1) \<Rightarrow>
            (case gists_loop w gists ((docs1, 0), tr1) of
               ((all_documents, gists_processed), tr2) \<Rightarrow>
                 if all_documents \<noteq> [] then
                   (case sample_log (hd all_documents) of
                      Some e \<Rightarrow>
                        ([(''total_documents'', MInt (int (length all_documents))),
                          (''repositories_processed'', MInt (int repos_processed)),
                          (''gists_processed'', MInt (int gists_processed)),
                          (''scout_write'', MText ''failed''),
                          (''error'', MError e)], tr2)
                    | None \<Rightarrow>
                        (let tr3 = tr2 @ [WriteDocuments collection_id tid all_documents] in
                         case on_write_documents w tr3 of
                           Some e \<Rightarrow>
                             ([(''total_documents'', MInt (int (length all_documents))),
                               (''repositories_processed'', MInt (int repos_processed)),
                               (''gists_processed'', MInt (int gists_processed)),
                               (''scout_write'', MText ''failed''),
                               (''error'', MError e)], tr3)
                         | None \<Rightarrow>
                             ([(''total_documents'', MInt (int (length all_documents))),
                               (''repositories_processed'', MInt (int repos_processed)),
                               (''gists_processed'', MInt (int gists_processed)),
                               (''total_repos'', MInt (int (length repositories))),
                               (''total_gists'', MInt (int (length gists))),
                               (''scout_write'', MText ''success'')], tr3)))
                 else
                   ([(''total_documents'', MInt 0),
                     (''repositories_processed'', MInt (int repos_processed)),
                     (''gists_processed'', MInt (int gists_processed)),
                     (''scout_write'', MText ''skipped - no documents'')], tr2))))"

section \<open>Observations on histories\<close>

text \<open>
  The calls of a complete sparse checkout, in order. The properties of the fetcher
  compare the history of a run with this list.
\<close>

definition sparse_checkout_script :: "string \<Rightarrow> string \<Rightarrow> string \<Rightarrow> path \<Rightarrow> git_action list" where
  "sparse_checkout_script repo_url branch subdirectory target_dir =
     [Mkdir target_dir,
      Run [Str ''git'', Str ''init''] (Some target_dir) 30,
      Run [Str ''git'', Str ''remote'', Str ''add'', Str ''origin'', Str repo_url]
        (Some target_dir) 30,
      Run [Str ''git'', Str ''config'', Str ''core.sparseCheckout'', Str ''true'']
        (Some target_dir) 30,
      Mkdir (Div (Div target_dir ''.git'') ''info''),
      WriteText (Div (Div (Div target_dir ''.git'') ''info'') ''sparse-checkout'')
        (subdirectory @ ''/'' @ newline),
      Run [Str ''git'', Str ''fetch'', Str ''origin'', Str branch] (Some target_dir) 300,
      Run [Str ''git'', Str ''checkout'', Str (''origin/'' @ branch)] (Some target_dir) 60,
      PathExists (Div target_dir subdirectory)]"

text \<open>The files written during a run, and the \<^verbatim>\<open>git fetch\<close> commands run.\<close>

definition rules_written :: "git_action list \<Rightarrow> (path \<times> string) list" where
  "rules_written tr = [(p, s). WriteText p s \<leftarrow> tr]"

definition fetched :: "git_action list \<Rightarrow> arg list list" where
  "fetched tr = [argv. Run argv cwd t \<leftarrow> tr, take 2 argv = [Str ''git'', Str ''fetch'']]"

text \<open>
  \<open>single a m\<close>: the step \<open>m\<close> performs exactly the call \<open>a\<close>, whatever its
  outcome. \<open>performs sc m\<close>: the calls of \<open>m\<close> are an initial part of \<open>sc\<close>.
  \<open>succeeds sc P m\<close>: when \<open>m\<close> returns \<open>True\<close>, its calls were all of \<open>sc\<close> and
  \<open>P\<close> holds of the world and the history.
\<close>

definition single :: "git_action \<Rightarrow> 'a git_io \<Rightarrow> bool" where
  "single a m = (\<forall>w tr. snd (m w tr) = tr @ [a])"

definition performs :: "git_action list \<Rightarrow> 'a git_io \<Rightarrow> bool" where
  "performs sc m = (\<forall>w tr. \<exists>n. n \<le> length sc \<and> snd (m w tr) = tr @ take n sc)"

definition succeeds ::
  "git_action list \<Rightarrow> (git_world \<Rightarrow> git_action list \<Rightarrow> bool) \<Rightarrow> bool git_io \<Rightarrow> bool" where
  "succeeds sc P m = (\<forall>w tr tr'. m w tr = (Inr True, tr') \<longrightarrow> tr' = tr @ sc \<and> P w tr')"

text \<open>A world in which every call succeeds and the checked path exists or not.\<close>

definition all_fine :: "bool \<Rightarrow> git_world" where
  "all_fine present =
     \<lparr>on_mkdir = (\<lambda>h. None), on_run = (\<lambda>h. Inr 0), on_write = (\<lambda>h. None),
      on_exists = (\<lambda>h. Inr present)\<rparr>"

text \<open>
  For the flattener: the lines an entry contributes, whether it is emitted, the
  text of the output before the timestamp, the lines between the header and the
  file sections (the remote of the repository and the README section), and all the
  lines after the header.
\<close>

definition sections :: "string list \<Rightarrow> string list \<times> node \<Rightarrow> string list" where
  "sections root e = (case file_section root e of None \<Rightarrow> [] | Some ls \<Rightarrow> ls)"

definition emitted :: "string list \<Rightarrow> string list \<times> node \<Rightarrow> bool" where
  "emitted root e = (file_section root e \<noteq> None)"

definition flatten_header :: "string \<Rightarrow> string \<Rightarrow> string" where
  "flatten_header owner repo =
     ''# '' @ owner @ ''/'' @ repo @ newline @ newline
     @ ''Repository: https://github.com/'' @ owner @ ''/'' @ repo @ newline
     @ ''Flattened: ''"

definition flatten_preamble :: "tree \<Rightarrow> string list" where
  "flatten_preamble t =
     (if map_of (entries t) [''.git''] \<noteq> None then
        (case git_remote t of
           Inr (returncode, stdout) \<Rightarrow>
             if returncode = 0 then [''**Git Remote:** '' @ strip stdout, []] else []
         | Inl e \<Rightarrow> [])
      else [])
     @ readme_section (map_of (entries t)) readme_files"

definition flatten_body :: "tree \<Rightarrow> string list" where
  "flatten_body t =
     flatten_preamble t @ concat (map (sections (root_parts t)) (sort_key fst (entries t)))"

text \<open>Two listings of one small directory, and directories with a single file.\<close>

definition listing_a :: tree where
  "listing_a =
     \<lparr>root_parts = [''tmp'', ''repo''], root_is_dir = True,
      entries = [([''b.py''], RegularFile (Inr 8) (Inr ''print(1)'')),
                 ([''a.md''], RegularFile (Inr 3) (Inr ''# A''))],
      git_remote = Inl FileNotFoundError\<rparr>"

definition listing_b :: tree where
  "listing_b =
     \<lparr>root_parts = [''tmp'', ''repo''], root_is_dir = True,
      entries = [([''a.md''], RegularFile (Inr 3) (Inr ''# A'')),
                 ([''b.py''], RegularFile (Inr 8) (Inr ''print(1)''))],
      git_remote = Inl FileNotFoundError\<rparr>"

definition only_file :: "string \<Rightarrow> node \<Rightarrow> tree" where
  "only_file name n =
     \<lparr>root_parts = [''tmp'', ''repo''], root_is_dir = True,
      entries = [([name], n)],
      git_remote = Inl FileNotFoundError\<rparr>"

text \<open>Two flattened documents for the extractor: one without and one with a README section.\<close>

definition content_without_readme :: string where
  "content_without_readme =
     ''# o/r'' @ newline @ newline @ ''## File: a.py'' @ newline @ ''x = 1''"

definition content_with_readme :: string where
  "content_with_readme =
     ''# o/r'' @ newline @ ''## README'' @ newline @ ''# r title'' @ newline
     @ ''Hello world'' @ newline @ ''**meta**'' @ newline @ ''  more text '' @ newline
     @ ''## File: a.py'' @ newline @ ''x = 1''"

text \<open>
  Two decoded gist responses: one file with content, and one file whose content is
  empty.
\<close>

definition gist_with_content :: json where
  "gist_with_content =
     JObj [(''description'', JStr ''demo''),
           (''owner'', JObj [(''login'', JStr ''me'')]),
           (''files'',
              JObj [(''a.py'', JObj [(''content'', JStr ''x = 1''), (''language'', JStr ''Python'')])])]"

definition gist_without_content :: json where
  "gist_without_content =
     JObj [(''description'', JStr ''demo''),
           (''owner'', JObj [(''login'', JStr ''me'')]),
           (''files'',
              JObj [(''a.py'', JObj [(''content'', JStr []), (''language'', JStr ''Python'')])])]"

text \<open>
  For the orchestrator, following the words of the specification: the calls for the
  configured sources in order (repositories, then gists that are not placeholders),
  each with the category its documents are tagged with; and the surviving
  documents, where a source whose call raises contributes nothing and every later
  source is still asked.
\<close>

definition source_calls :: "repo_config list \<Rightarrow> gist_config list \<Rightarrow> (fill_action \<times> string) list" where
  "source_calls repositories gists =
     map (\<lambda>r. (GetRepositoryContent (repo_owner r) (repo_name r), repo_category r)) repositories
     @ map (\<lambda>g. (GetGistContent (gist_config_id g) (gist_config_name g), ''gist''))
         (filter (\<lambda>g. gist_config_id g \<noteq> ''your_gist_id_here''
                      \<and> gist_config_id g \<noteq> ''gist_id_placeholder'') gists)"

definition answer :: "fill_world \<Rightarrow> fill_action \<Rightarrow> fill_action list \<Rightarrow> py_exn + document list" where
  "answer w a h =
     (case a of
        GetRepositoryContent owner repo \<Rightarrow> on_repository_content w h
      | GetGistContent gist_id gist_name \<Rightarrow> on_gist_content w h
      | WriteDocuments c t ds \<Rightarrow> Inr [])"

fun surviving_documents ::
  "fill_world \<Rightarrow> (fill_action \<times> string) list \<Rightarrow> fill_action list \<Rightarrow> document list" where
  "surviving_documents w [] h = []"
| "surviving_documents w ((a, category) # rest) h =
     (case answer w a (h @ [a]) of
        Inl e \<Rightarrow> []
      | Inr documents \<Rightarrow> map (tag_document category) documents)
     @ surviving_documents w rest (h @ [a])"

text \<open>
  A run with two repositories and one gist in which the first repository raises, and
  a collection with two tables.
\<close>

definition sample_repositories :: "repo_config list" where
  "sample_repositories =
     [\<lparr>repo_owner = ''dagster-io'', repo_name = ''broken'', repo_category = ''official'',
       repo_description = []\<rparr>,
      \<lparr>repo_owner = ''slopp'', repo_name = ''snowreport'', repo_category = ''user_examples'',
       repo_description = []\<rparr>]"

definition sample_gists :: "gist_config list" where
  "sample_gists =
     [\<lparr>gist_config_id = ''your_gist_id_here'', gist_config_name = ''placeholder'',
       gist_config_description = []\<rparr>,
      \<lparr>gist_config_id = ''74f96fbf'', gist_config_name = ''release'',
       gist_config_description = []\<rparr>]"

definition sample_world :: fill_world where
  "sample_world =
     \<lparr>on_repository_content =
        (\<lambda>h. if last h = GetRepositoryContent ''dagster-io'' ''broken'' then Inl OtherException
             else Inr [[(''_key'', JStr ''slopp/snowreport'')]]),
      on_gist_content = (\<lambda>h. Inr [[(''_key'', JStr ''gist_74f96fbf'')]]),
      on_write_documents = (\<lambda>h. None)\<rparr>"

definition sample_tables :: "document list" where
  "sample_tables =
     [[(''id'', JStr ''t1''), (''name'', JStr ''Other'')],
      [(''id'', JStr ''t2''), (''name'', JStr ''GitHub Repositories and Files'')]]"

definition sample_sink :: sink_world where
  "sample_sink =
     \<lparr>on_get_tables = (\<lambda>h. Inr sample_tables),
      on_delete_table = (\<lambda>h. None),
      on_create_table = (\<lambda>h. Inr (JObj [(''data'', JObj [(''table_id'', JStr ''t3'')])])),
      on_get_table_schema = (\<lambda>h. Inr (JObj []))\<rparr>"

section \<open>Properties of the URL Resolver\<close>

lemma split_char_not_Nil: "split_char c s \<noteq> []"
  by (induction s) (auto split: list.splits)

lemma split_char_no_sep:
  "c \<notin> set s \<Longrightarrow> split_char c s = [s]"
  by (induction s) auto

lemma split_char_append:
  "c \<notin> set a \<Longrightarrow> split_char c (a @ c # rest) = a # split_char c rest"
  by (induction a) auto

lemma split_char_join:
  "segs \<noteq> [] \<Longrightarrow> \<forall>s \<in> set segs. c \<notin> set s \<Longrightarrow> split_char c (join [c] segs) = segs"
proof (induction "[c]" segs rule: join.induct)
  case 1
  then show ?case by simp
next
  case (2 x)
  then show ?case by (simp add: split_char_no_sep)
next
  case (3 x y ys)
  then show ?case using split_char_append[of c x "join [c] (y # ys)"] by simp
qed

lemma dropWhile_hd: "s \<noteq> [] \<Longrightarrow> hd s \<noteq> c \<Longrightarrow> dropWhile (\<lambda>x. x = c) s = s"
  by (cases s) auto

lemma strip_char_id:
  assumes "s \<noteq> []" and "hd s \<noteq> c" and "last s \<noteq> c"
  shows "strip_char c s = s"
proof -
  have "dropWhile (\<lambda>x. x = c) (rev s) = rev s"
    using assms(1,3) by (intro dropWhile_hd) (simp_all add: hd_rev)
  then show ?thesis
    using assms(1,2) by (simp add: strip_char_def dropWhile_hd)
qed

lemma join_not_Nil: "segs \<noteq> [] \<Longrightarrow> \<forall>s \<in> set segs. s \<noteq> [] \<Longrightarrow> join sep segs \<noteq> []"
  by (induction sep segs rule: join.induct) auto

lemma hd_join: "segs \<noteq> [] \<Longrightarrow> hd segs \<noteq> [] \<Longrightarrow> hd (join sep segs) = hd (hd segs)"
  by (induction sep segs rule: join.induct) auto

lemma last_join:
  "segs \<noteq> [] \<Longrightarrow> \<forall>s \<in> set segs. s \<noteq> [] \<Longrightarrow> last (join sep segs) = last (last segs)"
  by (induction sep segs rule: join.induct) (auto simp: join_not_Nil)

text \<open>
  The resolver returns a subdirectory only together with a branch.
\<close>

lemma parse_github_url_subdirectory_branch:
  "parse_github_url url parsed_path = (base_url, branch, Some subdirectory) \<Longrightarrow> branch \<noteq> None"
  by (auto simp: parse_github_url_def Let_def split: sum.splits if_splits)

text \<open>
  A path written as a slash followed by non-empty segments without slashes, joined
  by slashes, splits into exactly these segments.
\<close>

lemma path_parts_join:
  assumes "segs \<noteq> []" and "\<forall>s \<in> set segs. s \<noteq> [] \<and> CHR ''/'' \<notin> set s"
  shows "path_parts (''/'' @ join ''/'' segs) = segs"
proof -
  have ne: "join ''/'' segs \<noteq> []" using assms by (intro join_not_Nil) auto
  have "hd segs \<in> set segs" "last segs \<in> set segs" using assms(1) by simp_all
  with assms(2) have h: "hd segs \<noteq> []" "CHR ''/'' \<notin> set (hd segs)"
    and l: "last segs \<noteq> []" "CHR ''/'' \<notin> set (last segs)" by auto
  have "hd (join ''/'' segs) = hd (hd segs)" using assms(1) h(1) by (rule hd_join)
  with h have hd: "hd (join ''/'' segs) \<noteq> CHR ''/''" by (metis hd_in_set)
  have "last (join ''/'' segs) = last (last segs)" using assms by (intro last_join) auto
  with l have last: "last (join ''/'' segs) \<noteq> CHR ''/''" by (metis last_in_set)
  have "strip_char CHR ''/'' (''/'' @ join ''/'' segs) = strip_char CHR ''/'' (join ''/'' segs)"
    by (simp add: strip_char_def)
  also have "\<dots> = join ''/'' segs" using ne hd last by (rule strip_char_id)
  finally show ?thesis using assms by (simp add: path_parts_def split_char_join)
qed

text \<open>
  Claim C1, as the code has it. When the path splits into more than four segments
  and the third is \<open>tree\<close>, the resolver returns the canonical repository URL, the
  fourth segment as branch and the remaining segments joined by \<open>/\<close> as
  subdirectory. When the path has exactly four segments with the third \<open>tree\<close>, the
  canonical URL and the branch are returned and the subdirectory is absent
  (\<open>None\<close>), not the empty string. By \<open>path_parts_join\<close> the hypothesis holds of
  every path \<^verbatim>\<open>/owner/repo/tree/branch/a/b/c\<close> whose segments are non-empty.
\<close>

theorem parse_github_url_tree:
  assumes "path_parts p = owner # repo # ''tree'' # branch # rest"
  shows "parse_github_url url (Inr p) =
           (''https://github.com/'' @ owner @ ''/'' @ repo @ ''.git'',
            Some branch,
            if rest = [] then None else Some (join ''/'' rest))"
  using assms by (simp add: parse_github_url_def Let_def)

theorem parse_github_url_tree_witness:
  "path_parts ''/dagster-io/dagster/tree/master/examples/docs_projects/project_atproto_dashboard'' =
     ''dagster-io'' # ''dagster'' # ''tree'' # ''master'' #
       [''examples'', ''docs_projects'', ''project_atproto_dashboard'']
   \<and> parse_github_url
       ''https://github.com/dagster-io/dagster/tree/master/examples/docs_projects/project_atproto_dashboard''
       (Inr ''/dagster-io/dagster/tree/master/examples/docs_projects/project_atproto_dashboard'') =
     (''https://github.com/dagster-io/dagster.git'', Some ''master'',
      Some ''examples/docs_projects/project_atproto_dashboard'')"
proof -
  have parts:
    "path_parts ''/dagster-io/dagster/tree/master/examples/docs_projects/project_atproto_dashboard'' =
       ''dagster-io'' # ''dagster'' # ''tree'' # ''master'' #
         [''examples'', ''docs_projects'', ''project_atproto_dashboard'']"
    by (simp add: path_parts_def strip_char_def)
  show ?thesis
    using parts parse_github_url_tree [OF parts,
      of "''https://github.com/dagster-io/dagster/tree/master/examples/docs_projects/project_atproto_dashboard''"]
    by simp
qed

text \<open>
  The URL \<^verbatim>\<open>https://github.com/dagster-io/dagster/tree/master\<close> has exactly four
  path segments; the resolver returns no subdirectory for it, not the empty string.
\<close>

theorem parse_github_url_four_segments_counterexample:
  "path_parts ''/dagster-io/dagster/tree/master'' =
     [''dagster-io'', ''dagster'', ''tree'', ''master'']
   \<and> parse_github_url ''https://github.com/dagster-io/dagster/tree/master''
       (Inr ''/dagster-io/dagster/tree/master'') =
     (''https://github.com/dagster-io/dagster.git'', Some ''master'', None)
   \<and> snd (snd (parse_github_url ''https://github.com/dagster-io/dagster/tree/master''
       (Inr ''/dagster-io/dagster/tree/master''))) \<noteq> Some []"
  by (simp add: parse_github_url_def path_parts_def strip_char_def Let_def)

section \<open>Properties of the Repository Fetcher\<close>

lemma single_mkdir: "single (Mkdir p) (do_mkdir p)"
  by (simp add: single_def do_mkdir_def Let_def)

lemma single_run: "single (Run argv cwd t) (do_run argv cwd t)"
  by (simp add: single_def do_run_def Let_def)

lemma single_write: "single (WriteText p s) (do_write p s)"
  by (simp add: single_def do_write_def Let_def)

lemma single_exists: "single (PathExists p) (do_exists p)"
  by (simp add: single_def do_exists_def Let_def)

lemma performs_return: "performs sc (git_return x)"
  by (auto simp: performs_def git_return_def intro: exI[of _ 0])

lemma performs_if: "performs sc m \<Longrightarrow> performs sc (if c then git_return x else m)"
  by (simp add: performs_return)

lemma performs_bind_step:
  assumes "single a m" and "\<And>x. performs sc (f x)"
  shows "\<exists>n. n \<le> length sc \<and> snd (git_bind m f w tr) = tr @ a # take n sc"
proof -
  obtain r tr' where m: "m w tr = (r, tr')" by (cases "m w tr")
  have "snd (m w tr) = tr @ [a]" using assms(1) by (simp add: single_def)
  with m have tr': "tr' = tr @ [a]" by simp
  show ?thesis
  proof (cases r)
    case (Inl e)
    then have "snd (git_bind m f w tr) = tr @ a # take 0 sc"
      by (simp add: git_bind_def m tr')
    then show ?thesis by (intro exI[of _ 0]) simp
  next
    case (Inr x)
    from assms(2)[of x] obtain n where "n \<le> length sc" "snd (f x w tr') = tr' @ take n sc"
      by (auto simp: performs_def)
    then have "snd (git_bind m f w tr) = tr @ a # take n sc"
      by (simp add: git_bind_def m Inr tr')
    with \<open>n \<le> length sc\<close> show ?thesis by (intro exI[of _ n]) simp
  qed
qed

lemma performs_bind:
  assumes "single a m" and "\<And>x. performs sc (f x)"
  shows "performs (a # sc) (git_bind m f)"
  unfolding performs_def
proof (intro allI)
  fix w tr
  have "\<exists>n. n \<le> length sc \<and> snd (git_bind m f w tr) = tr @ a # take n sc"
    by (rule performs_bind_step[OF assms(1)]) (rule assms(2))
  then obtain n where "n \<le> length sc" "snd (git_bind m f w tr) = tr @ a # take n sc" by auto
  then show "\<exists>n\<le>length (a # sc). snd (git_bind m f w tr) = tr @ take n (a # sc)"
    by (intro exI[of _ "Suc n"]) simp
qed

text \<open>
  Whatever the world answers, \<^verbatim>\<open>clone_subdirectory\<close> creates the target directory
  and then performs an initial part of the remaining calls of the script.
\<close>

lemma clone_subdirectory_prefix:
  "\<exists>n. snd (clone_subdirectory u b s t w tr) =
     tr @ Mkdir t # take n (tl (sparse_checkout_script u b s t))"
proof -
  have "\<exists>n. n \<le> length (tl (sparse_checkout_script u b s t)) \<and>
     snd (clone_subdirectory_try u b s t w tr) =
       tr @ Mkdir t # take n (tl (sparse_checkout_script u b s t))"
    unfolding clone_subdirectory_try_def sparse_checkout_script_def Let_def parent.simps list.sel
    by (intro performs_bind_step performs_bind performs_if performs_return
        single_mkdir single_run single_write single_exists)
  moreover have "snd (clone_subdirectory u b s t w tr) = snd (clone_subdirectory_try u b s t w tr)"
    by (simp add: clone_subdirectory_def split: prod.splits sum.splits)
  ultimately show ?thesis by auto
qed

lemma succeeds_return_False: "succeeds sc P (git_return False)"
  by (simp add: succeeds_def git_return_def)

lemma succeeds_if: "succeeds sc P m \<Longrightarrow> succeeds sc P (if c then git_return False else m)"
  by (simp add: succeeds_return_False)

lemma succeeds_bind:
  assumes "single a m" and "\<And>x. succeeds sc P (f x)"
  shows "succeeds (a # sc) P (git_bind m f)"
  unfolding succeeds_def
proof (intro allI impI)
  fix w tr tr''
  assume run: "git_bind m f w tr = (Inr True, tr'')"
  obtain r tr' where m: "m w tr = (r, tr')" by (cases "m w tr")
  have "snd (m w tr) = tr @ [a]" using assms(1) by (simp add: single_def)
  with m have tr': "tr' = tr @ [a]" by simp
  from run m obtain x where "r = Inr x" "f x w tr' = (Inr True, tr'')"
    by (cases r) (auto simp: git_bind_def)
  with assms(2)[of x] have "tr'' = tr' @ sc \<and> P w tr''"
    by (simp add: succeeds_def)
  then show "tr'' = tr @ a # sc \<and> P w tr''" by (auto simp: tr')
qed

lemma succeeds_exists:
  "succeeds [PathExists p] (\<lambda>w tr. on_exists w tr = Inr True)
     (git_bind (do_exists p) (\<lambda>ex. if \<not> ex then git_return False else git_return True))"
  by (auto simp: succeeds_def git_bind_def do_exists_def git_return_def Let_def
      split: sum.splits if_splits)

lemma clone_subdirectory_try_succeeds:
  "succeeds (sparse_checkout_script u b s t) (\<lambda>w tr. on_exists w tr = Inr True)
     (clone_subdirectory_try u b s t)"
  unfolding clone_subdirectory_try_def sparse_checkout_script_def Let_def parent.simps
  by (intro succeeds_bind succeeds_if succeeds_exists
        single_mkdir single_run single_write)

text \<open>A run that returns \<open>True\<close> performed the whole script and found the path.\<close>

lemma clone_subdirectory_True:
  assumes "clone_subdirectory u b s t w tr = (True, tr')"
  shows "tr' = tr @ sparse_checkout_script u b s t \<and> on_exists w tr' = Inr True"
proof -
  from assms have "clone_subdirectory_try u b s t w tr = (Inr True, tr')"
    by (auto simp: clone_subdirectory_def split: prod.splits sum.splits)
  with clone_subdirectory_try_succeeds[of u b s t] show ?thesis
    by (simp add: succeeds_def)
qed

text \<open>
  When every call before the check succeeds and the check does not find the
  subdirectory, the whole script is performed and the result is \<open>False\<close>.
\<close>

lemma clone_subdirectory_missing:
  assumes "\<And>h. on_mkdir w h = None" "\<And>h. on_write w h = None" "\<And>h. on_run w h = Inr 0"
    and "on_exists w (tr @ sparse_checkout_script u b s t) \<noteq> Inr True"
  shows "clone_subdirectory u b s t w tr = (False, tr @ sparse_checkout_script u b s t)"
  using assms
  by (simp add: clone_subdirectory_def clone_subdirectory_try_def sparse_checkout_script_def
      git_bind_def git_return_def do_mkdir_def do_run_def do_write_def do_exists_def Let_def
      split: sum.splits)

lemma script_prefix_observed:
  assumes "tr = Mkdir t # take n (tl (sparse_checkout_script u b s t))"
  shows "(rules_written tr = [] \<or>
          rules_written tr =
            [(Div (Div (Div t ''.git'') ''info'') ''sparse-checkout'', s @ ''/'' @ newline)])
       \<and> (fetched tr = [] \<or>
          (fetched tr = [[Str ''git'', Str ''fetch'', Str ''origin'', Str b]] \<and>
           rules_written tr =
            [(Div (Div (Div t ''.git'') ''info'') ''sparse-checkout'', s @ ''/'' @ newline)]))"
proof -
  consider "n = 0" | "n = 1" | "n = 2" | "n = 3" | "n = 4" | "n = 5" | "n = 6" | "n = 7"
    | "n \<ge> 8"
    by linarith
  then show ?thesis
    by cases (simp_all add: assms sparse_checkout_script_def rules_written_def fetched_def)
qed

lemma script_observed:
  "rules_written (sparse_checkout_script u b s t) =
     [(Div (Div (Div t ''.git'') ''info'') ''sparse-checkout'', s @ ''/'' @ newline)]"
  "fetched (sparse_checkout_script u b s t) = [[Str ''git'', Str ''fetch'', Str ''origin'', Str b]]"
  by (simp_all add: sparse_checkout_script_def rules_written_def fetched_def)

text \<open>
  Claim C2. In every run of the sparse checkout, whatever the outside answers:
  no file is written other than the one sparse-checkout rule, the subdirectory
  followed by \<open>/\<close> (and the end of the line), and it is written at most once; no
  \<^verbatim>\<open>git fetch\<close> is run other than the one for the named branch, and by then the
  rule has been written exactly once; a run that returns \<open>True\<close> has performed the
  whole script, written exactly one rule, fetched exactly the named branch, and its
  last call, the check that the subdirectory exists, answered \<open>True\<close>; and when
  every earlier call succeeds but the check does not find the subdirectory, the run
  returns \<open>False\<close> after the whole script.
\<close>

theorem clone_subdirectory_sparse_checkout:
  assumes "clone_subdirectory repo_url branch subdirectory target_dir w [] = (ok, tr)"
  shows "(rules_written tr = [] \<or>
          rules_written tr =
            [(Div (Div (Div target_dir ''.git'') ''info'') ''sparse-checkout'',
              subdirectory @ ''/'' @ newline)])
       \<and> (fetched tr = [] \<or>
          (fetched tr = [[Str ''git'', Str ''fetch'', Str ''origin'', Str branch]] \<and>
           rules_written tr =
            [(Div (Div (Div target_dir ''.git'') ''info'') ''sparse-checkout'',
              subdirectory @ ''/'' @ newline)]))
       \<and> (ok \<longrightarrow>
            tr = sparse_checkout_script repo_url branch subdirectory target_dir \<and>
            rules_written tr =
              [(Div (Div (Div target_dir ''.git'') ''info'') ''sparse-checkout'',
                subdirectory @ ''/'' @ newline)] \<and>
            fetched tr = [[Str ''git'', Str ''fetch'', Str ''origin'', Str branch]] \<and>
            last tr = PathExists (Div target_dir subdirectory) \<and>
            on_exists w tr = Inr True)
       \<and> ((\<forall>h. on_mkdir w h = None \<and> on_write w h = None \<and> on_run w h = Inr 0) \<and>
           on_exists w (sparse_checkout_script repo_url branch subdirectory target_dir) \<noteq> Inr True
           \<longrightarrow> \<not> ok \<and> tr = sparse_checkout_script repo_url branch subdirectory target_dir)"
proof (intro conjI impI)
  from clone_subdirectory_prefix[of repo_url branch subdirectory target_dir w "[]"] assms
  obtain n where tr:
    "tr = Mkdir target_dir # take n (tl (sparse_checkout_script repo_url branch subdirectory target_dir))"
    by auto
  from script_prefix_observed[OF tr]
  show "rules_written tr = [] \<or>
          rules_written tr =
            [(Div (Div (Div target_dir ''.git'') ''info'') ''sparse-checkout'',
              subdirectory @ ''/'' @ newline)]"
    and "fetched tr = [] \<or>
          (fetched tr = [[Str ''git'', Str ''fetch'', Str ''origin'', Str branch]] \<and>
           rules_written tr =
            [(Div (Div (Div target_dir ''.git'') ''info'') ''sparse-checkout'',
              subdirectory @ ''/'' @ newline)])"
    by simp_all
next
  assume ok
  with assms have "clone_subdirectory repo_url branch subdirectory target_dir w [] = (True, tr)"
    by simp
  from clone_subdirectory_True[OF this]
  have tr: "tr = sparse_checkout_script repo_url branch subdirectory target_dir"
    and ex: "on_exists w tr = Inr True" by auto
  show "tr = sparse_checkout_script repo_url branch subdirectory target_dir" by (rule tr)
  show "on_exists w tr = Inr True" by (rule ex)
  show "rules_written tr =
          [(Div (Div (Div target_dir ''.git'') ''info'') ''sparse-checkout'',
            subdirectory @ ''/'' @ newline)]"
    unfolding tr by (rule script_observed)
  show "fetched tr = [[Str ''git'', Str ''fetch'', Str ''origin'', Str branch]]"
    unfolding tr by (rule script_observed)
  show "last tr = PathExists (Div target_dir subdirectory)"
    unfolding tr by (simp add: sparse_checkout_script_def)
next
  assume h: "(\<forall>h. on_mkdir w h = None \<and> on_write w h = None \<and> on_run w h = Inr 0) \<and>
     on_exists w (sparse_checkout_script repo_url branch subdirectory target_dir) \<noteq> Inr True"
  then have "clone_subdirectory repo_url branch subdirectory target_dir w [] =
      (False, [] @ sparse_checkout_script repo_url branch subdirectory target_dir)"
    by (intro clone_subdirectory_missing) simp_all
  with assms show "\<not> ok" and "tr = sparse_checkout_script repo_url branch subdirectory target_dir"
    by simp_all
qed

theorem clone_subdirectory_sparse_checkout_witness:
  "clone_subdirectory ''https://github.com/dagster-io/dagster.git'' ''master''
       ''examples/docs_projects/project_atproto_dashboard'' (Path ''out'') (all_fine True) [] =
     (True,
      sparse_checkout_script ''https://github.com/dagster-io/dagster.git'' ''master''
        ''examples/docs_projects/project_atproto_dashboard'' (Path ''out''))
   \<and> rules_written
       (sparse_checkout_script ''https://github.com/dagster-io/dagster.git'' ''master''
          ''examples/docs_projects/project_atproto_dashboard'' (Path ''out'')) =
     [(Div (Div (Div (Path ''out'') ''.git'') ''info'') ''sparse-checkout'',
       ''examples/docs_projects/project_atproto_dashboard/'' @ newline)]
   \<and> fetched
       (sparse_checkout_script ''https://github.com/dagster-io/dagster.git'' ''master''
          ''examples/docs_projects/project_atproto_dashboard'' (Path ''out'')) =
     [[Str ''git'', Str ''fetch'', Str ''origin'', Str ''master'']]
   \<and> clone_subdirectory ''https://github.com/dagster-io/dagster.git'' ''master''
       ''examples/docs_projects/project_atproto_dashboard'' (Path ''out'') (all_fine False) [] =
     (False,
      sparse_checkout_script ''https://github.com/dagster-io/dagster.git'' ''master''
        ''examples/docs_projects/project_atproto_dashboard'' (Path ''out''))"
proof -
  let ?sc = "sparse_checkout_script ''https://github.com/dagster-io/dagster.git'' ''master''
        ''examples/docs_projects/project_atproto_dashboard'' (Path ''out'')"
  have run: "clone_subdirectory ''https://github.com/dagster-io/dagster.git'' ''master''
       ''examples/docs_projects/project_atproto_dashboard'' (Path ''out'') (all_fine True) [] =
     (True, ?sc)"
    by (simp add: clone_subdirectory_def clone_subdirectory_try_def sparse_checkout_script_def
        git_bind_def git_return_def do_mkdir_def do_run_def do_write_def do_exists_def
        all_fine_def Let_def)
  obtain ok tr where run': "clone_subdirectory ''https://github.com/dagster-io/dagster.git'' ''master''
       ''examples/docs_projects/project_atproto_dashboard'' (Path ''out'') (all_fine False) [] =
     (ok, tr)" by (cases "clone_subdirectory ''https://github.com/dagster-io/dagster.git'' ''master''
       ''examples/docs_projects/project_atproto_dashboard'' (Path ''out'') (all_fine False) []")
  have fine: "(\<forall>h. on_mkdir (all_fine False) h = None \<and> on_write (all_fine False) h = None \<and>
       on_run (all_fine False) h = Inr 0) \<and> on_exists (all_fine False) ?sc \<noteq> Inr True"
    by (simp add: all_fine_def)
  from clone_subdirectory_sparse_checkout[OF run] clone_subdirectory_sparse_checkout[OF run'] fine
  show ?thesis
    unfolding run run' by simp
qed

text \<open>
  Claim C10. For a URL whose path has exactly the four segments owner, repo,
  \<open>tree\<close>, branch, the resolver returns the canonical URL and the branch with no
  subdirectory, and \<^verbatim>\<open>clone_repository\<close> of the downloader then performs a single
  call, \<^verbatim>\<open>git clone\<close> of the canonical URL into the target directory with a
  timeout of 300 seconds. The command does not name the branch: the result and the
  history are the same for every branch in the URL, and \<^verbatim>\<open>git clone\<close> without a
  branch option checks out the default branch of the repository.
\<close>

theorem clone_repository_four_segments:
  assumes "path_parts p = [owner, repo, ''tree'', branch]"
  shows "parse_github_url url (Inr p) =
           (''https://github.com/'' @ owner @ ''/'' @ repo @ ''.git'', Some branch, None)
       \<and> clone_repository url (Inr p) target_dir w [] =
           (case on_run w [Run [Str ''git'', Str ''clone'',
                                Str (''https://github.com/'' @ owner @ ''/'' @ repo @ ''.git''),
                                StrOf target_dir] None 300] of
              Inr returncode \<Rightarrow> Inr (returncode = 0)
            | Inl e \<Rightarrow>
                if e = TimeoutExpired \<or> e = CalledProcessError \<or> e = FileNotFoundError
                then Inr False else Inl e,
            [Run [Str ''git'', Str ''clone'',
                  Str (''https://github.com/'' @ owner @ ''/'' @ repo @ ''.git''),
                  StrOf target_dir] None 300])"
proof -
  have parse: "parse_github_url url (Inr p) =
           (''https://github.com/'' @ owner @ ''/'' @ repo @ ''.git'', Some branch, None)"
    using assms by (simp add: parse_github_url_def Let_def)
  show ?thesis
    by (simp add: parse clone_repository_def git_bind_def git_return_def do_run_def Let_def
        split: sum.splits)
qed

theorem clone_repository_four_segments_witness:
  "path_parts ''/dagster-io/dagster/tree/master'' =
     [''dagster-io'', ''dagster'', ''tree'', ''master'']
   \<and> clone_repository ''https://github.com/dagster-io/dagster/tree/master''
       (Inr ''/dagster-io/dagster/tree/master'') (Path ''out'') (all_fine True) [] =
     (Inr True,
      [Run [Str ''git'', Str ''clone'', Str ''https://github.com/dagster-io/dagster.git'',
            StrOf (Path ''out'')] None 300])"
proof -
  have parts: "path_parts ''/dagster-io/dagster/tree/master'' =
     [''dagster-io'', ''dagster'', ''tree'', ''master'']"
    by (simp add: path_parts_def strip_char_def)
  from clone_repository_four_segments [OF parts,
      of "''https://github.com/dagster-io/dagster/tree/master''" "Path ''out''" "all_fine True"]
  show ?thesis
    using parts by (simp add: all_fine_def)
qed

section \<open>Properties of the Tree Flattener\<close>

lemma walk_eq:
  "walk root es (md, k) =
     (md @ concat (map (sections root) es), k + length (filter (emitted root) es))"
  by (induction es arbitrary: md k) (auto simp: sections_def emitted_def split: option.splits)

lemma flatten_lines_eq:
  "flatten_lines t owner repo now =
     (if \<not> root_is_dir t \<or> \<not> list_ex (\<lambda>e. length (fst e) = 1) (entries t)
         \<or> filter (emitted (root_parts t)) (entries t) = [] then None
      else Some ([''# '' @ owner @ ''/'' @ repo, [],
                  ''Repository: https://github.com/'' @ owner @ ''/'' @ repo,
                  ''Flattened: '' @ now, []] @ flatten_body t))"
proof -
  have "filter (emitted (root_parts t)) (sort_key fst (entries t)) = [] \<longleftrightarrow>
        filter (emitted (root_parts t)) (entries t) = []"
    by (simp add: filter_empty_conv)
  then show ?thesis
    by (simp add: flatten_lines_def walk_eq flatten_body_def flatten_preamble_def Let_def
        split: sum.splits)
qed

lemma join_Cons: "rest \<noteq> [] \<Longrightarrow> join sep (x # rest) = x @ sep @ join sep rest"
  by (cases rest) simp_all

lemma flatten_eq:
  "flatten_repository_to_markdown t owner repo now =
     (if \<not> root_is_dir t \<or> \<not> list_ex (\<lambda>e. length (fst e) = 1) (entries t)
         \<or> filter (emitted (root_parts t)) (entries t) = [] then None
      else Some (flatten_header owner repo @ now @ newline @ join newline ([] # flatten_body t)))"
  by (simp add: flatten_repository_to_markdown_def flatten_lines_eq flatten_header_def join_Cons)

lemma permuted_entries:
  assumes "mset es2 = mset es1" and "distinct (map fst es1)"
  shows "sort_key fst es2 = sort_key fst es1" and "map_of es2 = map_of es1"
    and "set es2 = set es1"
proof -
  from assms(1) have m: "mset (map fst es2) = mset (map fst es1)" by (metis mset_map)
  with assms(2) have d2: "distinct (map fst es2)" by (metis mset_eq_imp_distinct_iff)
  show s: "set es2 = set es1" using assms(1) by (rule mset_eq_setD)
  have "inj_on fst (set es2)" using d2 by (simp add: distinct_map)
  moreover have "mset es2 = mset (sort_key fst es1)" using assms(1) by simp
  ultimately show "sort_key fst es2 = sort_key fst es1"
    by (intro sort_key_inj_key_eq) simp_all
  show "map_of es2 = map_of es1"
    using d2 assms(2) s by (simp add: map_of_inject_set)
qed

text \<open>
  Claim C3. Take two runs of the flattener on the same directory: the same root, the
  same entries (the operating system may list them in a different order, and no two
  entries share a path), the same answer of \<^verbatim>\<open>git remote\<close>; the clock may differ.
  Then both runs return none, or both return a text that is: the header up to
  \<open>Flattened:\<close>, the timestamp of the run, and after the end of that line one and
  the same text in both runs, namely the remote and README lines followed by the
  sections of the entries taken in the sorted order of their paths. That order is
  strictly ascending and visits every entry once. So the two texts differ in the
  timestamp only, and the order of the sections is the lexicographic order of the
  paths whatever the order of the listing.
\<close>

theorem flatten_deterministic:
  assumes "mset (entries t2) = mset (entries t1)"
    and "distinct (map fst (entries t1))"
    and "root_parts t2 = root_parts t1"
    and "root_is_dir t2 = root_is_dir t1"
    and "git_remote t2 = git_remote t1"
  shows "flatten_repository_to_markdown t1 owner repo now1 =
           (if \<not> root_is_dir t1 \<or> \<not> list_ex (\<lambda>e. length (fst e) = 1) (entries t1)
               \<or> list_all (\<lambda>e. file_section (root_parts t1) e = None) (entries t1)
            then None
            else Some (flatten_header owner repo @ now1 @ newline
                       @ join newline
                           ([] # flatten_preamble t1
                            @ concat (map (sections (root_parts t1))
                                        (sort_key fst (entries t1))))))
       \<and> flatten_repository_to_markdown t2 owner repo now2 =
           (if \<not> root_is_dir t1 \<or> \<not> list_ex (\<lambda>e. length (fst e) = 1) (entries t1)
               \<or> list_all (\<lambda>e. file_section (root_parts t1) e = None) (entries t1)
            then None
            else Some (flatten_header owner repo @ now2 @ newline
                       @ join newline
                           ([] # flatten_preamble t1
                            @ concat (map (sections (root_parts t1))
                                        (sort_key fst (entries t1))))))
       \<and> sorted (map fst (sort_key fst (entries t1)))
       \<and> distinct (map fst (sort_key fst (entries t1)))
       \<and> mset (sort_key fst (entries t1)) = mset (entries t1)"
proof -
  note p = permuted_entries[OF assms(1,2)]
  have none: "(filter (emitted (root_parts t)) es = []) =
      list_all (\<lambda>e. file_section (root_parts t) e = None) es" for t es
    by (simp add: filter_empty_conv list_all_iff emitted_def)
  have body: "flatten_body t2 = flatten_body t1"
    by (simp add: flatten_body_def flatten_preamble_def p assms)
  have ex: "list_ex (\<lambda>e. length (fst e) = 1) (entries t2) =
            list_ex (\<lambda>e. length (fst e) = 1) (entries t1)"
    unfolding list_ex_iff p ..
  have em: "list_all (\<lambda>e. file_section (root_parts t1) e = None) (entries t2) =
            list_all (\<lambda>e. file_section (root_parts t1) e = None) (entries t1)"
    unfolding list_all_iff p ..
  have f1: "flatten_repository_to_markdown t1 owner repo now1 =
           (if \<not> root_is_dir t1 \<or> \<not> list_ex (\<lambda>e. length (fst e) = 1) (entries t1)
               \<or> list_all (\<lambda>e. file_section (root_parts t1) e = None) (entries t1)
            then None
            else Some (flatten_header owner repo @ now1 @ newline
                       @ join newline
                           ([] # flatten_preamble t1
                            @ concat (map (sections (root_parts t1))
                                        (sort_key fst (entries t1))))))"
    unfolding flatten_eq none flatten_body_def ..
  have f2: "flatten_repository_to_markdown t2 owner repo now2 =
           (if \<not> root_is_dir t1 \<or> \<not> list_ex (\<lambda>e. length (fst e) = 1) (entries t1)
               \<or> list_all (\<lambda>e. file_section (root_parts t1) e = None) (entries t1)
            then None
            else Some (flatten_header owner repo @ now2 @ newline
                       @ join newline
                           ([] # flatten_preamble t1
                            @ concat (map (sections (root_parts t1))
                                        (sort_key fst (entries t1))))))"
    unfolding flatten_eq[of t2] none body assms(3,4) ex em
    unfolding flatten_body_def ..
  have o1: "sorted (map fst (sort_key fst (entries t1)))" by simp
  have "mset (map fst (sort_key fst (entries t1))) = mset (map fst (entries t1))"
    by simp
  with assms(2) have o2: "distinct (map fst (sort_key fst (entries t1)))"
    by (metis mset_eq_imp_distinct_iff)
  have o3: "mset (sort_key fst (entries t1)) = mset (entries t1)" by simp
  from f1 f2 o1 o2 o3 show ?thesis by blast
qed

lemmas flatten_eval =
  flatten_lines_def file_section_def readme_files_def path_suffix_def file_name_def
  py_lower_def lower_char_def code_extensions_def language_map_def startswith_def Let_def

theorem flatten_deterministic_witness:
  "mset (entries listing_b) = mset (entries listing_a)
   \<and> distinct (map fst (entries listing_a))
   \<and> entries listing_a \<noteq> entries listing_b
   \<and> flatten_repository_to_markdown listing_a ''o'' ''r'' ''2024-01-01 00:00:00'' =
       Some (flatten_header ''o'' ''r'' @ ''2024-01-01 00:00:00'' @ newline
             @ join newline
                 [[], ''## File: a.md'', [], ''# A'', [],
                  ''## File: b.py'', [], ''```python'', ''print(1)'', ''```'', []])
   \<and> flatten_repository_to_markdown listing_b ''o'' ''r'' ''2024-01-02 12:30:00'' =
       Some (flatten_header ''o'' ''r'' @ ''2024-01-02 12:30:00'' @ newline
             @ join newline
                 [[], ''## File: a.md'', [], ''# A'', [],
                  ''## File: b.py'', [], ''```python'', ''print(1)'', ''```'', []])"
proof -
  have h1: "mset (entries listing_b) = mset (entries listing_a)"
    by (simp add: listing_a_def listing_b_def)
  have h2: "distinct (map fst (entries listing_a))"
    by (simp add: listing_a_def)
  have h3: "root_parts listing_b = root_parts listing_a"
    "root_is_dir listing_b = root_is_dir listing_a"
    "git_remote listing_b = git_remote listing_a"
    by (simp_all add: listing_a_def listing_b_def)
  have differ: "entries listing_a \<noteq> entries listing_b"
    by (simp add: listing_a_def listing_b_def)
  have cond: "\<not> (\<not> root_is_dir listing_a
      \<or> \<not> list_ex (\<lambda>e. length (fst e) = 1) (entries listing_a)
      \<or> list_all (\<lambda>e. file_section (root_parts listing_a) e = None) (entries listing_a))"
    by (simp add: listing_a_def flatten_eval)
  have pre: "flatten_preamble listing_a = []"
    by (simp add: flatten_preamble_def listing_a_def readme_files_def)
  have walk: "concat (map (sections (root_parts listing_a)) (sort_key fst (entries listing_a))) =
      [''## File: a.md'', [], ''# A'', [],
       ''## File: b.py'', [], ''```python'', ''print(1)'', ''```'', []]"
    by (simp add: listing_a_def sections_def flatten_eval)
  from flatten_deterministic[OF h1 h2 h3, of "''o''" "''r''" "''2024-01-01 00:00:00''"
      "''2024-01-02 12:30:00''"]
  have "flatten_repository_to_markdown listing_a ''o'' ''r'' ''2024-01-01 00:00:00'' =
       Some (flatten_header ''o'' ''r'' @ ''2024-01-01 00:00:00'' @ newline
             @ join newline
                 ([] # [''## File: a.md'', [], ''# A'', [],
                  ''## File: b.py'', [], ''```python'', ''print(1)'', ''```'', []]))"
    and "flatten_repository_to_markdown listing_b ''o'' ''r'' ''2024-01-02 12:30:00'' =
       Some (flatten_header ''o'' ''r'' @ ''2024-01-02 12:30:00'' @ newline
             @ join newline
                 ([] # [''## File: a.md'', [], ''# A'', [],
                  ''## File: b.py'', [], ''```python'', ''print(1)'', ''```'', []]))"
    unfolding if_not_P[OF cond] pre walk append_Nil by blast+
  with h1 h2 differ show ?thesis by blast
qed

text \<open>
  Claim C7, as the code has it. When the walk emits no file, the flattener returns
  none; in particular for a directory whose only entry is named \<open>README\<close>, whatever
  it is: that name has no suffix, so the walk never emits it. The other README
  variants (\<open>README.md\<close>, \<open>readme.md\<close>, \<open>README.txt\<close>) carry an allow-listed suffix
  and go through the tests of the walk like every other entry.
\<close>

theorem flatten_nothing_emitted:
  "((\<forall>e \<in> set (entries t). file_section (root_parts t) e = None)
      \<longrightarrow> flatten_repository_to_markdown t owner repo now = None)
   \<and> (entries t = [([''README''], n)]
      \<longrightarrow> flatten_repository_to_markdown t owner repo now = None)"
proof -
  have "file_section root ([''README''], n) = None" for root
    by (cases n) (simp_all add: file_section_def path_suffix_def file_name_def py_lower_def
        code_extensions_def)
  then show ?thesis
    by (auto simp: flatten_eq filter_empty_conv emitted_def)
qed

theorem flatten_nothing_emitted_witness:
  "entries (only_file ''LICENSE'' (RegularFile (Inr 5) (Inr ''MIT''))) =
     [([''LICENSE''], RegularFile (Inr 5) (Inr ''MIT''))]
   \<and> file_section (root_parts (only_file ''LICENSE'' (RegularFile (Inr 5) (Inr ''MIT''))))
       ([''LICENSE''], RegularFile (Inr 5) (Inr ''MIT'')) = None
   \<and> flatten_repository_to_markdown (only_file ''LICENSE'' (RegularFile (Inr 5) (Inr ''MIT'')))
       ''o'' ''r'' ''2024-01-01 00:00:00'' = None
   \<and> entries (only_file ''README'' (RegularFile (Inr 7) (Inr ''# Hello''))) =
     [([''README''], RegularFile (Inr 7) (Inr ''# Hello''))]
   \<and> flatten_repository_to_markdown (only_file ''README'' (RegularFile (Inr 7) (Inr ''# Hello'')))
       ''o'' ''r'' ''2024-01-01 00:00:00'' = None"
proof -
  have e: "entries (only_file ''LICENSE'' (RegularFile (Inr 5) (Inr ''MIT''))) =
     [([''LICENSE''], RegularFile (Inr 5) (Inr ''MIT''))]"
    by (simp add: only_file_def)
  have s: "file_section (root_parts (only_file ''LICENSE'' (RegularFile (Inr 5) (Inr ''MIT''))))
       ([''LICENSE''], RegularFile (Inr 5) (Inr ''MIT'')) = None"
    by (simp add: only_file_def file_section_def path_suffix_def file_name_def py_lower_def
        code_extensions_def)
  have h: "\<forall>e \<in> set (entries (only_file ''LICENSE'' (RegularFile (Inr 5) (Inr ''MIT'')))).
      file_section (root_parts (only_file ''LICENSE'' (RegularFile (Inr 5) (Inr ''MIT'')))) e = None"
    unfolding e using s by simp
  have r: "entries (only_file ''README'' (RegularFile (Inr 7) (Inr ''# Hello''))) =
     [([''README''], RegularFile (Inr 7) (Inr ''# Hello''))]"
    by (simp add: only_file_def)
  from flatten_nothing_emitted[of "only_file ''LICENSE'' (RegularFile (Inr 5) (Inr ''MIT''))"
      "''o''" "''r''" "''2024-01-01 00:00:00''"]
    flatten_nothing_emitted[of "only_file ''README'' (RegularFile (Inr 7) (Inr ''# Hello''))"
      "''o''" "''r''" "''2024-01-01 00:00:00''" "RegularFile (Inr 7) (Inr ''# Hello'')"] h e s r
  show ?thesis by blast
qed

text \<open>
  The directory with the single readable file \<open>README.md\<close> of 7 bytes: the result
  is a document with the README section and the file section of the README.
\<close>

theorem flatten_readme_md_only_counterexample:
  "entries (only_file ''README.md'' (RegularFile (Inr 7) (Inr ''# Hello''))) =
     [([''README.md''], RegularFile (Inr 7) (Inr ''# Hello''))]
   \<and> flatten_lines (only_file ''README.md'' (RegularFile (Inr 7) (Inr ''# Hello'')))
       ''o'' ''r'' ''2024-01-01 00:00:00'' =
     Some [''# o/r'', [], ''Repository: https://github.com/o/r'',
           ''Flattened: 2024-01-01 00:00:00'', [],
           ''## README'', [], ''# Hello'', [],
           ''## File: README.md'', [], ''# Hello'', []]
   \<and> flatten_repository_to_markdown (only_file ''README.md'' (RegularFile (Inr 7) (Inr ''# Hello'')))
       ''o'' ''r'' ''2024-01-01 00:00:00'' \<noteq> None"
  by (simp add: flatten_repository_to_markdown_def only_file_def flatten_eval)







section \<open>Properties of the Description Extractor\<close>

lemma collect_readme_lines_no_marker:
  "\<forall>line \<in> set ls. strip line \<noteq> ''## README'' \<Longrightarrow>
     collect_readme_lines owner repo ls False acc = acc"
  by (induction ls) simp_all

lemma extract_description_cases:
  "extract_description_from_content content owner repo = fallback_description owner repo
   \<or> length (extract_description_from_content content owner repo) \<le> 500"
  by (simp add: extract_description_from_content_def Let_def)

lemma collect_description_parts_Nil:
  "(collect_description_parts ls acc = []) =
     (acc = [] \<and> (\<forall>l \<in> set ls. l = [] \<or> startswith l ''#'' \<or> startswith l ''**''))"
  by (induction ls arbitrary: acc) (auto simp: Let_def)

text \<open>
  Claim C6. The extractor is a total function from strings to strings. It returns
  exactly the fallback sentence when the content has no line that is the README
  marker, when no README line is collected, and when none of the first ten
  collected lines is usable, that is when each of them is empty or starts with
  \<open>#\<close> or with \<open>**\<close>. Otherwise it returns the first 500 characters of the usable
  parts joined by blanks. In every case the result is the fallback sentence or has
  at most 500 characters, so it is never more than 500 characters longer than the
  fallback sentence.
\<close>

theorem extract_description_fallback_and_bound:
  "((\<forall>line \<in> set (split_char CHR 0x0A content). strip line \<noteq> ''## README'')
      \<longrightarrow> extract_description_from_content content owner repo = fallback_description owner repo)
   \<and> (collect_readme_lines owner repo (split_char CHR 0x0A content) False [] = []
      \<longrightarrow> extract_description_from_content content owner repo = fallback_description owner repo)
   \<and> (collect_description_parts
        (take 10 (collect_readme_lines owner repo (split_char CHR 0x0A content) False [])) [] = []
      \<longrightarrow> extract_description_from_content content owner repo = fallback_description owner repo)
   \<and> (extract_description_from_content content owner repo = fallback_description owner repo
      \<or> length (extract_description_from_content content owner repo) \<le> 500)
   \<and> length (extract_description_from_content content owner repo)
      \<le> length (fallback_description owner repo) + 500
   \<and> fallback_description owner repo =
      ''Repository '' @ owner @ ''/'' @ repo @ '' containing code and documentation files.''
   \<and> extract_description_from_content content owner repo =
      (if \<forall>l \<in> set (take 10
                  (collect_readme_lines owner repo (split_char CHR 0x0A content) False [])).
            l = [] \<or> startswith l ''#'' \<or> startswith l ''**''
       then fallback_description owner repo
       else take 500
              (join '' ''
                 (collect_description_parts
                    (take 10
                       (collect_readme_lines owner repo (split_char CHR 0x0A content) False []))
                    [])))"
proof (intro conjI impI)
  assume "\<forall>line \<in> set (split_char CHR 0x0A content). strip line \<noteq> ''## README''"
  then have "collect_readme_lines owner repo (split_char CHR 0x0A content) False [] = []"
    by (rule collect_readme_lines_no_marker)
  then show "extract_description_from_content content owner repo = fallback_description owner repo"
    by (simp add: extract_description_from_content_def)
next
  assume "collect_readme_lines owner repo (split_char CHR 0x0A content) False [] = []"
  then show "extract_description_from_content content owner repo = fallback_description owner repo"
    by (simp add: extract_description_from_content_def)
next
  assume "collect_description_parts
        (take 10 (collect_readme_lines owner repo (split_char CHR 0x0A content) False [])) [] = []"
  then show "extract_description_from_content content owner repo = fallback_description owner repo"
    by (simp add: extract_description_from_content_def Let_def)
next
  show "extract_description_from_content content owner repo = fallback_description owner repo
      \<or> length (extract_description_from_content content owner repo) \<le> 500"
    by (rule extract_description_cases)
next
  from extract_description_cases[of content owner repo]
  show "length (extract_description_from_content content owner repo)
      \<le> length (fallback_description owner repo) + 500"
    by auto
next
  show "fallback_description owner repo =
      ''Repository '' @ owner @ ''/'' @ repo @ '' containing code and documentation files.''"
    by (simp add: fallback_description_def)
next
  define readme_lines where
    "readme_lines = collect_readme_lines owner repo (split_char CHR 0x0A content) False []"
  define parts where "parts = collect_description_parts (take 10 readme_lines) []"
  have none: "(parts = []) =
      (\<forall>l \<in> set (take 10 readme_lines). l = [] \<or> startswith l ''#'' \<or> startswith l ''**'')"
    unfolding parts_def by (simp add: collect_description_parts_Nil)
  have "readme_lines = [] \<Longrightarrow> parts = []"
    by (simp add: parts_def)
  then have "extract_description_from_content content owner repo =
      (if parts = [] then fallback_description owner repo else take 500 (join '' '' parts))"
    by (auto simp: extract_description_from_content_def Let_def readme_lines_def[symmetric]
        parts_def[symmetric])
  then show "extract_description_from_content content owner repo =
      (if \<forall>l \<in> set (take 10
                  (collect_readme_lines owner repo (split_char CHR 0x0A content) False [])).
            l = [] \<or> startswith l ''#'' \<or> startswith l ''**''
       then fallback_description owner repo
       else take 500
              (join '' ''
                 (collect_description_parts
                    (take 10
                       (collect_readme_lines owner repo (split_char CHR 0x0A content) False []))
                    [])))"
    unfolding none unfolding parts_def readme_lines_def .
qed

lemmas extract_eval =
  extract_description_from_content_def newline_def strip_def is_space_def startswith_def
  py_lower_def lower_char_def Let_def

theorem extract_description_fallback_and_bound_witness:
  "extract_description_from_content content_without_readme ''o'' ''r'' =
     ''Repository o/r containing code and documentation files.''
   \<and> extract_description_from_content content_with_readme ''o'' ''r'' = ''Hello world more text''
   \<and> length (extract_description_from_content content_with_readme ''o'' ''r'') \<le> 500"
proof -
  have no_marker:
    "\<forall>line \<in> set (split_char CHR 0x0A content_without_readme). strip line \<noteq> ''## README''"
    by (simp add: content_without_readme_def newline_def strip_def is_space_def)
  have computed: "extract_description_from_content content_with_readme ''o'' ''r'' =
      ''Hello world more text''"
    by (simp add: content_with_readme_def extract_eval)
  have "length (extract_description_from_content content_with_readme ''o'' ''r'') \<le> 500"
    using extract_description_fallback_and_bound[of content_with_readme "''o''" "''r''"]
    by (auto simp: fallback_description_def)
  moreover have "extract_description_from_content content_without_readme ''o'' ''r'' =
     ''Repository o/r containing code and documentation files.''"
    using extract_description_fallback_and_bound[of content_without_readme "''o''" "''r''"] no_marker
    by (simp add: fallback_description_def)
  ultimately show ?thesis using computed by simp
qed

text \<open>
  Whitespace and capital letters beyond ASCII: a line that holds only a no-break
  space is blank; a no-break space before the README marker is stripped; the header
  line \<open>#\<close> followed by a capital E with acute accent names the repository called by
  the small letter and is passed over.
\<close>

lemma extract_description_beyond_ascii:
  "extract_description_from_content
     (''## README'' @ newline @ [CHR 0xA0] @ newline @ ''## File: a.py'' @ newline) ''o'' ''r'' =
     ''Repository o/r containing code and documentation files.''"
  "extract_description_from_content
     ([CHR 0xA0] @ ''## README'' @ newline @ ''Hello'' @ newline) ''o'' ''r'' = ''Hello''"
  "extract_description_from_content
     (''## README'' @ newline @ ''# '' @ [CHR 0xC9] @ newline @ ''Hello'' @ newline)
     ''o'' [CHR 0xE9] = ''Hello''"
  by (simp_all add: extract_eval fallback_description_def)

section \<open>Properties of the Gist Fetcher\<close>

lemma exn_bind_Inr:
  "exn_bind m f = Inr y \<Longrightarrow> \<exists>x. m = Inr x \<and> f x = Inr y"
  by (cases m) (simp_all add: exn_bind_def)

lemma get_gist_content_try_length:
  assumes "get_gist_content_try str_of gist_id gist_name response = Inr documents"
  shows "length documents \<le> 1"
  using assms unfolding get_gist_content_try_def
  by (auto dest!: exn_bind_Inr split: prod.splits if_splits)

lemma gist_file_lines_no_content:
  assumes "\<forall>c. py_get file_data ''content'' (JStr []) = Inr c \<longrightarrow> \<not> truthy c"
  shows "gist_file_lines filename file_data = Inr [] \<or> (\<exists>e. gist_file_lines filename file_data = Inl e)"
  using assms by (cases "py_get file_data ''content'' (JStr [])") (simp_all add: gist_file_lines_def)

lemma gist_files_loop_no_content:
  assumes "\<forall>kv \<in> set file_items. \<forall>c. py_get (snd kv) ''content'' (JStr []) = Inr c \<longrightarrow> \<not> truthy c"
    and "gist_files_loop file_items (md, k) = Inr (md', k')"
  shows "k' = k"
  using assms
proof (induction file_items arbitrary: md k)
  case Nil
  then show ?case by simp
next
  case (Cons kv rest)
  obtain filename file_data where kv: "kv = (filename, file_data)" by (cases kv)
  from Cons.prems(1) kv
  have "\<forall>c. py_get file_data ''content'' (JStr []) = Inr c \<longrightarrow> \<not> truthy c" by auto
  from gist_file_lines_no_content[OF this, of filename] Cons.prems(2) kv
  have "gist_file_lines filename file_data = Inr []" and
    "gist_files_loop rest (md, k) = Inr (md', k')"
    by auto
  with Cons.IH[of md k] Cons.prems(1) show ?case by simp
qed

text \<open>
  Claim C5. Whatever the gist id, the name and the outcome of the request,
  \<^verbatim>\<open>get_gist_content\<close> returns a list of at most one document. The function is
  total: when the request fails, or when anything in the body of its \<^verbatim>\<open>try\<close>
  block raises, the result is the empty list. When no file of the gist has truthy
  content, the result is the empty list as well.
\<close>

theorem get_gist_content_zero_or_one:
  "length (get_gist_content str_of gist_id gist_name response) \<le> 1
   \<and> get_gist_content str_of gist_id gist_name (Inl e) = []
   \<and> (get_gist_content_try str_of gist_id gist_name response = Inl e
        \<longrightarrow> get_gist_content str_of gist_id gist_name response = [])
   \<and> ((\<forall>file_items. py_get gist_data ''files'' (JObj []) = Inr (JObj file_items) \<longrightarrow>
          (\<forall>kv \<in> set file_items. \<forall>c.
              py_get (snd kv) ''content'' (JStr []) = Inr c \<longrightarrow> \<not> truthy c))
        \<longrightarrow> get_gist_content str_of gist_id gist_name (Inr gist_data) = [])"
proof (intro conjI impI)
  show "length (get_gist_content str_of gist_id gist_name response) \<le> 1"
    by (auto simp: get_gist_content_def split: sum.splits dest: get_gist_content_try_length)
  show "get_gist_content str_of gist_id gist_name (Inl e) = []"
    by (simp add: get_gist_content_def get_gist_content_try_def exn_bind_def)
next
  assume "get_gist_content_try str_of gist_id gist_name response = Inl e"
  then show "get_gist_content str_of gist_id gist_name response = []"
    by (simp add: get_gist_content_def)
next
  assume empty: "\<forall>file_items. py_get gist_data ''files'' (JObj []) = Inr (JObj file_items) \<longrightarrow>
          (\<forall>kv \<in> set file_items. \<forall>c.
              py_get (snd kv) ''content'' (JStr []) = Inr c \<longrightarrow> \<not> truthy c)"
  show "get_gist_content str_of gist_id gist_name (Inr gist_data) = []"
  proof (cases "get_gist_content_try str_of gist_id gist_name (Inr gist_data)")
    case (Inl e)
    then show ?thesis by (simp add: get_gist_content_def)
  next
    case (Inr documents)
    then obtain gist_description owner html_url created_at updated_at files file_items md k
      where files: "py_get gist_data ''files'' (JObj []) = Inr files"
        and items: "py_items files = Inr file_items"
        and loop: "gist_files_loop file_items
          (gist_header str_of gist_id gist_description owner html_url created_at updated_at, 0)
            = Inr (md, k)"
        and result: "(if k > 0 then
             exn_bind (py_join newline md) (\<lambda>content.
               Inr [gist_doc gist_id gist_name gist_description owner html_url created_at
                      updated_at content k file_items])
           else Inr []) = Inr documents"
      unfolding get_gist_content_try_def
      by (auto dest!: exn_bind_Inr split: prod.splits)
    from items have "files = JObj file_items" by (cases files) simp_all
    with files empty have "\<forall>kv \<in> set file_items. \<forall>c.
              py_get (snd kv) ''content'' (JStr []) = Inr c \<longrightarrow> \<not> truthy c"
      by blast
    from gist_files_loop_no_content[OF this loop] have "k = 0" by simp
    with result have "documents = []" by simp
    with Inr show ?thesis by (simp add: get_gist_content_def)
  qed
qed

lemmas gist_eval =
  get_gist_content_def get_gist_content_try_def exn_bind_def gist_file_lines_def
  gist_header_def gist_doc_def gist_language_map_def endswith_def py_lower_def lower_char_def
  newline_def Let_def

theorem get_gist_content_zero_or_one_witness:
  "length (get_gist_content (\<lambda>v. ''None'') ''74f96fbf'' ''demo'' (Inr gist_with_content)) = 1
   \<and> get_gist_content (\<lambda>v. ''None'') ''74f96fbf'' ''demo'' (Inr gist_without_content) = []
   \<and> get_gist_content (\<lambda>v. ''None'') ''74f96fbf'' ''demo'' (Inl RequestException) = []"
proof -
  have one: "length (get_gist_content (\<lambda>v. ''None'') ''74f96fbf'' ''demo'' (Inr gist_with_content)) = 1"
    by (simp add: gist_with_content_def gist_eval)
  have empty: "\<forall>file_items.
      py_get gist_without_content ''files'' (JObj []) = Inr (JObj file_items) \<longrightarrow>
        (\<forall>kv \<in> set file_items. \<forall>c.
            py_get (snd kv) ''content'' (JStr []) = Inr c \<longrightarrow> \<not> truthy c)"
    by (auto simp: gist_without_content_def)
  from get_gist_content_zero_or_one[of "\<lambda>v. ''None''" "''74f96fbf''" "''demo''"
      "Inr gist_with_content" RequestException gist_without_content] one empty
  show ?thesis by simp
qed

section \<open>Properties of the Sink Provisioner\<close>

lemma find_table_Some:
  "find_table name ts = Some t \<Longrightarrow> t \<in> set ts \<and> dict_get t ''name'' = JStr name"
  by (induction ts) (auto split: if_splits)

lemma find_table_exists:
  "t \<in> set ts \<Longrightarrow> dict_get t ''name'' = JStr name \<Longrightarrow> \<exists>t'. find_table name ts = Some t'"
  by (induction ts) auto

lemma named_table_not_empty: "dict_get t ''name'' = JStr name \<Longrightarrow> t \<noteq> []"
  by (auto simp: dict_get_def)

text \<open>
  Claim C9. When the environment gives a collection id, the listing of the tables
  succeeds and holds a table whose name is the configured one, and no recreation is
  forced, then \<^verbatim>\<open>scout_table\<close> returns the id of the first such table with the
  status \<open>existing\<close>, and its only call is the listing of the tables: no table is
  created and none is deleted.
\<close>

theorem scout_table_existing:
  assumes "cid \<noteq> []"
    and "on_get_tables w [GetTables cid] = Inr tables"
    and "t \<in> set tables"
    and "dict_get t ''name'' = JStr table_name"
  shows "\<exists>t'. find_table table_name tables = Some t'
            \<and> dict_get t' ''name'' = JStr table_name
            \<and> scout_table table_name False (Some cid) w [] =
                (Inr \<lparr>table_id = dict_get t' ''id'', status = ''existing''\<rparr>, [GetTables cid])"
proof -
  from find_table_exists[OF assms(3,4)] obtain t' where found: "find_table table_name tables = Some t'"
    by blast
  from find_table_Some[OF found] have name: "dict_get t' ''name'' = JStr table_name" by simp
  then have "t' \<noteq> []" by (rule named_table_not_empty)
  with assms(1,2) found have "scout_table table_name False (Some cid) w [] =
      (Inr \<lparr>table_id = dict_get t' ''id'', status = ''existing''\<rparr>, [GetTables cid])"
    by (simp add: scout_table_def Let_def)
  with found name show ?thesis by blast
qed

theorem scout_table_existing_witness:
  "on_get_tables sample_sink [GetTables ''c1''] = Inr sample_tables
   \<and> [(''id'', JStr ''t2''), (''name'', JStr ''GitHub Repositories and Files'')] \<in> set sample_tables
   \<and> scout_table ''GitHub Repositories and Files'' False (Some ''c1'') sample_sink [] =
       (Inr \<lparr>table_id = JStr ''t2'', status = ''existing''\<rparr>, [GetTables ''c1''])"
proof -
  have h1: "''c1'' \<noteq> []" by simp
  have h2: "on_get_tables sample_sink [GetTables ''c1''] = Inr sample_tables"
    by (simp add: sample_sink_def)
  have h3: "[(''id'', JStr ''t2''), (''name'', JStr ''GitHub Repositories and Files'')]
      \<in> set sample_tables"
    by (simp add: sample_tables_def)
  have h4: "dict_get [(''id'', JStr ''t2''), (''name'', JStr ''GitHub Repositories and Files'')]
      ''name'' = JStr ''GitHub Repositories and Files''"
    by (simp add: dict_get_def)
  have f: "find_table ''GitHub Repositories and Files'' sample_tables =
      Some [(''id'', JStr ''t2''), (''name'', JStr ''GitHub Repositories and Files'')]"
    by (simp add: sample_tables_def dict_get_def)
  from scout_table_existing[OF h1 h2 h3 h4] f h2 h3
  show ?thesis by (auto simp: dict_get_def)
qed

section \<open>Properties of the Ingestion Orchestrator\<close>

lemma surviving_documents_append:
  "surviving_documents w (xs @ ys) h =
     surviving_documents w xs h @ surviving_documents w ys (h @ map fst xs)"
  by (induction xs arbitrary: h) auto

lemma repositories_loop_eq:
  "fst (fst (repositories_loop w rs ((d, n), tr))) =
     d @ surviving_documents w
           (map (\<lambda>r. (GetRepositoryContent (repo_owner r) (repo_name r), repo_category r)) rs) tr
   \<and> snd (repositories_loop w rs ((d, n), tr)) =
     tr @ map (\<lambda>r. GetRepositoryContent (repo_owner r) (repo_name r)) rs"
  by (induction rs arbitrary: d n tr) (auto simp: Let_def answer_def split: sum.splits)

lemma gists_loop_eq:
  "fst (fst (gists_loop w gs ((d, n), tr))) =
     d @ surviving_documents w
           (map (\<lambda>g. (GetGistContent (gist_config_id g) (gist_config_name g), ''gist''))
              (filter (\<lambda>g. gist_config_id g \<noteq> ''your_gist_id_here''
                           \<and> gist_config_id g \<noteq> ''gist_id_placeholder'') gs)) tr
   \<and> snd (gists_loop w gs ((d, n), tr)) =
     tr @ map (\<lambda>g. GetGistContent (gist_config_id g) (gist_config_name g))
            (filter (\<lambda>g. gist_config_id g \<noteq> ''your_gist_id_here''
                         \<and> gist_config_id g \<noteq> ''gist_id_placeholder'') gs)"
  by (induction gs arbitrary: d n tr) (auto simp: Let_def answer_def split: sum.splits)

lemma loops_eq:
  assumes "repositories_loop w repositories (([], 0), []) = ((docs1, n1), tr1)"
    and "gists_loop w gists ((docs1, 0), tr1) = ((docs2, n2), tr2)"
  shows "docs2 = surviving_documents w (source_calls repositories gists) []"
    and "tr2 = map fst (source_calls repositories gists)"
proof -
  from repositories_loop_eq[of w repositories "[]" 0 "[]"] assms(1)
  have r: "docs1 = surviving_documents w
           (map (\<lambda>r. (GetRepositoryContent (repo_owner r) (repo_name r), repo_category r))
              repositories) []"
    "tr1 = map (\<lambda>r. GetRepositoryContent (repo_owner r) (repo_name r)) repositories"
    by simp_all
  from gists_loop_eq[of w gists docs1 0 tr1] assms(2)
  have g: "docs2 = docs1 @ surviving_documents w
           (map (\<lambda>g. (GetGistContent (gist_config_id g) (gist_config_name g), ''gist''))
              (filter (\<lambda>g. gist_config_id g \<noteq> ''your_gist_id_here''
                           \<and> gist_config_id g \<noteq> ''gist_id_placeholder'') gists)) tr1"
    "tr2 = tr1 @ map (\<lambda>g. GetGistContent (gist_config_id g) (gist_config_name g))
            (filter (\<lambda>g. gist_config_id g \<noteq> ''your_gist_id_here''
                         \<and> gist_config_id g \<noteq> ''gist_id_placeholder'') gists)"
    by simp_all
  show "docs2 = surviving_documents w (source_calls repositories gists) []"
    by (simp add: g r source_calls_def surviving_documents_append comp_def)
  show "tr2 = map fst (source_calls repositories gists)"
    by (simp add: g r source_calls_def comp_def)
qed

text \<open>
  Claim C4. Once the table id is known, the calls of \<^verbatim>\<open>github_table_fill\<close> are,
  for every configuration and whatever each call returns or raises: one call for
  every repository in order, then one call for every gist that is not a
  placeholder, then a single \<^verbatim>\<open>write_documents\<close> with the surviving documents,
  tagged, in the order of their sources. A source whose call raises contributes no
  document and stops nothing. The write is left out when there is no surviving
  document, and when logging the description of the first document fails.
\<close>

theorem github_table_fill_partial_failure:
  assumes "tid \<noteq> []"
  shows "snd (github_table_fill repositories gists (Some (Some tid)) collection_id w) =
           map fst (source_calls repositories gists)
           @ (if surviving_documents w (source_calls repositories gists) [] \<noteq> []
                 \<and> sample_log (hd (surviving_documents w (source_calls repositories gists) []))
                     = None
              then [WriteDocuments collection_id tid
                      (surviving_documents w (source_calls repositories gists) [])]
              else [])"
proof -
  obtain docs1 n1 tr1 where l1: "repositories_loop w repositories (([], 0), []) = ((docs1, n1), tr1)"
    by (metis surj_pair)
  obtain docs2 n2 tr2 where l2: "gists_loop w gists ((docs1, 0), tr1) = ((docs2, n2), tr2)"
    by (metis surj_pair)
  note eq = loops_eq[OF l1 l2]
  have "snd (github_table_fill repositories gists (Some (Some tid)) collection_id w) =
      tr2 @ (if docs2 \<noteq> [] \<and> sample_log (hd docs2) = None
             then [WriteDocuments collection_id tid docs2] else [])"
    using assms by (simp add: github_table_fill_def l1 l2 Let_def split: option.splits)
  then show ?thesis unfolding eq .
qed

theorem github_table_fill_partial_failure_witness:
  "on_repository_content sample_world [GetRepositoryContent ''dagster-io'' ''broken''] =
     Inl OtherException
   \<and> snd (github_table_fill sample_repositories sample_gists (Some (Some ''t2'')) (Some ''c1'')
           sample_world) =
     [GetRepositoryContent ''dagster-io'' ''broken'',
      GetRepositoryContent ''slopp'' ''snowreport'',
      GetGistContent ''74f96fbf'' ''release'',
      WriteDocuments (Some ''c1'') ''t2''
        [[(''_key'', JStr ''slopp/snowreport''), (''category'', JStr ''user_examples''),
          (''source'', JStr ''github_component'')],
         [(''_key'', JStr ''gist_74f96fbf''), (''category'', JStr ''gist''),
          (''source'', JStr ''github_component'')]]]"
proof -
  have tid: "''t2'' \<noteq> []" by simp
  have calls: "source_calls sample_repositories sample_gists =
      [(GetRepositoryContent ''dagster-io'' ''broken'', ''official''),
       (GetRepositoryContent ''slopp'' ''snowreport'', ''user_examples''),
       (GetGistContent ''74f96fbf'' ''release'', ''gist'')]"
    by (simp add: source_calls_def sample_repositories_def sample_gists_def)
  have docs: "surviving_documents sample_world (source_calls sample_repositories sample_gists) [] =
      [[(''_key'', JStr ''slopp/snowreport''), (''category'', JStr ''user_examples''),
        (''source'', JStr ''github_component'')],
       [(''_key'', JStr ''gist_74f96fbf''), (''category'', JStr ''gist''),
        (''source'', JStr ''github_component'')]]"
    by (simp add: calls answer_def sample_world_def tag_document_def)
  have raised: "on_repository_content sample_world [GetRepositoryContent ''dagster-io'' ''broken''] =
     Inl OtherException"
    by (simp add: sample_world_def)
  from github_table_fill_partial_failure[OF tid, of sample_repositories sample_gists "Some ''c1''"
      sample_world]
  have "snd (github_table_fill sample_repositories sample_gists (Some (Some ''t2'')) (Some ''c1'')
           sample_world) =
     map fst (source_calls sample_repositories sample_gists)
     @ [WriteDocuments (Some ''c1'') ''t2''
        [[(''_key'', JStr ''slopp/snowreport''), (''category'', JStr ''user_examples''),
          (''source'', JStr ''github_component'')],
         [(''_key'', JStr ''gist_74f96fbf''), (''category'', JStr ''gist''),
          (''source'', JStr ''github_component'')]]]"
    by (simp add: docs sample_log_def)
  with raised show ?thesis by (simp add: calls)
qed

end
